(* ===== verification/Prelude.thy ===== *)
theory Prelude
  imports Complex_Main "HOL-Library.Log_Nat"
begin

text \<open>
  Shared vocabulary of the development.

  \<^item> \<open>'a maybe\<close>: a JavaScript value of static type \<open>T | undefined | null\<close>. The views
    read product fields that the tests leave out (\<open>brand: undefined\<close>, partial objects cast
    to \<open>Product\<close>) and accessor fields set to \<open>null\<close> (\<open>error: null\<close>), so absence is part
    of the data model and not an error.
  \<^item> \<open>js_error\<close> and \<open>'a result\<close>: the two exceptions the views can raise (reading a
    property of \<open>undefined\<close>, \<open>String.prototype.repeat\<close> with a bad count) as values;
    \<open>bind_result\<close> sequences evaluations in source order, the first error wins.
  \<^item> \<open>optional_chain\<close> (\<open>x?.f\<close>), \<open>member_call\<close> (\<open>x.f(...)\<close>), \<open>string_or\<close> (\<open>a || b\<close> on
    strings) and \<open>first_elem\<close> (\<open>xs?.[0]\<close>): the operators of the source, one definition each.
  \<^item> decimal digits: \<open>digits10\<close> prints a natural number, \<open>read_digits\<close> reads a digit
    string back; the round trip and the digit-count bounds are used by every number
    formatting lemma.
  \<^item> the collection \<open>view_defs\<close>: the definitions of the cells and attributes the views
    compute, which the component theories extend and unfold together.
\<close>

named_theorems view_defs "definitions of the cells and attributes the views compute"

section \<open>Absent values and exceptions\<close>

datatype 'a maybe = Undefined | Null | Val 'a

datatype js_error = TypeError | RangeError

type_synonym 'a result = "js_error + 'a"

fun nullish :: "'a maybe \<Rightarrow> bool" where
  "nullish (Val x) = False"
| "nullish Undefined = True"
| "nullish Null = True"

fun bind_result :: "'a result \<Rightarrow> ('a \<Rightarrow> 'b result) \<Rightarrow> 'b result" where
  "bind_result (Inl e) f = Inl e"
| "bind_result (Inr x) f = f x"

fun optional_chain :: "'a maybe \<Rightarrow> ('a \<Rightarrow> 'b maybe) \<Rightarrow> 'b maybe" where
  "optional_chain (Val x) f = f x"
| "optional_chain Undefined f = Undefined"
| "optional_chain Null f = Undefined"

fun member_call :: "'a maybe \<Rightarrow> ('a \<Rightarrow> 'b result) \<Rightarrow> 'b result" where
  "member_call (Val x) f = f x"
| "member_call Undefined f = Inl TypeError"
| "member_call Null f = Inl TypeError"

fun truthy_string :: "string maybe \<Rightarrow> bool" where
  "truthy_string (Val s) = (s \<noteq> [])"
| "truthy_string Undefined = False"
| "truthy_string Null = False"

definition string_or :: "string maybe \<Rightarrow> string maybe \<Rightarrow> string maybe" where
  "string_or a b = (if truthy_string a then a else b)"

fun first_elem :: "'a list maybe \<Rightarrow> 'a maybe" where
  "first_elem (Val (x # xs)) = Val x"
| "first_elem (Val []) = Undefined"
| "first_elem Undefined = Undefined"
| "first_elem Null = Undefined"

fun is_ok :: "'a result \<Rightarrow> bool" where
  "is_ok (Inr x) = True"
| "is_ok (Inl e) = False"

lemma nullish_iff: "nullish m \<longleftrightarrow> m = Undefined \<or> m = Null"
  by (cases m) simp_all

lemma not_nullish_iff: "\<not> nullish m \<longleftrightarrow> (\<exists>x. m = Val x)"
  by (cases m) simp_all

lemma bind_result_Inr_iff [simp]:
  "bind_result m f = Inr y \<longleftrightarrow> (\<exists>x. m = Inr x \<and> f x = Inr y)"
  by (cases m) simp_all

lemma bind_result_Inl_iff:
  "bind_result m f = Inl e \<longleftrightarrow> m = Inl e \<or> (\<exists>x. m = Inr x \<and> f x = Inl e)"
  by (cases m) simp_all

lemma is_ok_iff: "is_ok r \<longleftrightarrow> (\<exists>x. r = Inr x)"
  by (cases r) simp_all

lemma is_ok_bind_result [simp]:
  "is_ok (bind_result m f) \<longleftrightarrow> (\<exists>x. m = Inr x \<and> is_ok (f x))"
  by (cases m) simp_all

lemma member_call_Inr_iff [simp]:
  "member_call m f = Inr y \<longleftrightarrow> (\<exists>x. m = Val x \<and> f x = Inr y)"
  by (cases m) simp_all

lemma member_call_nullish [simp]: "nullish m \<Longrightarrow> member_call m f = Inl TypeError"
  by (cases m) simp_all

lemma optional_chain_nullish [simp]: "nullish m \<Longrightarrow> optional_chain m f = Undefined"
  by (cases m) simp_all

lemma string_or_truthy [simp]: "truthy_string a \<Longrightarrow> string_or a b = a"
  by (simp add: string_or_def)

lemma string_or_falsy [simp]: "\<not> truthy_string a \<Longrightarrow> string_or a b = b"
  by (simp add: string_or_def)

lemma truthy_string_iff: "truthy_string a \<longleftrightarrow> (\<exists>s. a = Val s \<and> s \<noteq> [])"
  by (cases a) simp_all

lemma first_elem_Val_iff [simp]: "first_elem m = Val x \<longleftrightarrow> (\<exists>xs. m = Val (x # xs))"
  by (cases m rule: first_elem.cases) auto

section \<open>Repeated strings\<close>

definition repeat_string :: "nat \<Rightarrow> string \<Rightarrow> string" where
  "repeat_string n s = concat (replicate n s)"

lemma repeat_string_0 [simp]: "repeat_string 0 s = []"
  by (simp add: repeat_string_def)

lemma repeat_string_Suc [simp]: "repeat_string (Suc n) s = s @ repeat_string n s"
  by (simp add: repeat_string_def)

lemma length_repeat_string [simp]: "length (repeat_string n s) = n * length s"
  by (induction n) simp_all

lemma repeat_string_eq_Nil_iff [simp]: "repeat_string n s = [] \<longleftrightarrow> n = 0 \<or> s = []"
  by (induction n) auto

section \<open>Decimal digits\<close>

text \<open>
  Digit strings are computed over \<open>int\<close>, whose numerals evaluate in binary; list lengths
  and positions stay \<open>nat\<close>.
\<close>

definition digit_char :: "int \<Rightarrow> char" where
  "digit_char d = ''0123456789'' ! nat (d mod 10)"

definition digit_val :: "char \<Rightarrow> int" where
  "digit_val c = of_char c - 48"

definition is_digit :: "char \<Rightarrow> bool" where
  "is_digit c \<longleftrightarrow> (48::nat) \<le> of_char c \<and> of_char c \<le> (57::nat)"

function digits10 :: "int \<Rightarrow> string" where
  "digits10 n = (if n < 10 then [digit_char n] else digits10 (n div 10) @ [digit_char (n mod 10)])"
  by pat_completeness auto
termination
  by (relation "measure nat") auto

declare digits10.simps [simp del]

fun read_digits :: "int \<Rightarrow> string \<Rightarrow> int" where
  "read_digits acc [] = acc"
| "read_digits acc (c # cs) = read_digits (10 * acc + digit_val c) cs"

function digit_count :: "int \<Rightarrow> int \<Rightarrow> nat" where
  "digit_count b n = (if 0 < n \<and> 1 < b then Suc (digit_count b (n div b)) else 0)"
  by pat_completeness auto
termination
proof (relation "measure (\<lambda>(b, n). nat n)")
  fix b n :: int
  assume "0 < n \<and> 1 < b"
  then have "n div b < n" by (simp add: int_div_less_self)
  with \<open>0 < n \<and> 1 < b\<close> show "((b, n div b), (b, n)) \<in> measure (\<lambda>(b, n). nat n)"
    by simp
qed simp

declare digit_count.simps [simp del]

definition zero_pad :: "nat \<Rightarrow> string \<Rightarrow> string" where
  "zero_pad w s = replicate (w - length s) (CHR ''0'') @ s"

lemma digit_cases:
  "0 \<le> d \<Longrightarrow> d < 10 \<Longrightarrow>
   d = 0 \<or> d = 1 \<or> d = 2 \<or> d = 3 \<or> d = 4 \<or> d = 5 \<or> d = 6 \<or> d = 7 \<or> d = 8 \<or> d = (9::int)"
  by arith

lemma digit_val_digit_char [simp]: "0 \<le> d \<Longrightarrow> d < 10 \<Longrightarrow> digit_val (digit_char d) = d"
  using digit_cases [of d] by (auto simp: digit_val_def digit_char_def)

lemma is_digit_digit_char [simp]: "is_digit (digit_char d)"
proof -
  have "0 \<le> d mod 10" and "d mod 10 < 10" by simp_all
  from digit_cases [OF this] show ?thesis
    by (auto simp: is_digit_def digit_char_def)
qed

lemma digit_char_inj:
  "0 \<le> a \<Longrightarrow> a < 10 \<Longrightarrow> 0 \<le> b \<Longrightarrow> b < 10 \<Longrightarrow> digit_char a = digit_char b \<Longrightarrow> a = b"
  by (metis digit_val_digit_char)

lemma digits10_small [simp]: "n < 10 \<Longrightarrow> digits10 n = [digit_char n]"
  by (simp add: digits10.simps)

lemma digits10_large: "10 \<le> n \<Longrightarrow> digits10 n = digits10 (n div 10) @ [digit_char (n mod 10)]"
  by (subst digits10.simps) simp

lemma digits10_nonempty [simp]: "digits10 n \<noteq> []"
  by (subst digits10.simps) simp

lemma digits10_all_digits [simp]: "list_all is_digit (digits10 n)"
  by (induction n rule: digits10.induct) (subst digits10.simps, simp)

lemma read_digits_append [simp]:
  "read_digits acc (xs @ ys) = read_digits (read_digits acc xs) ys"
  by (induction xs arbitrary: acc) simp_all

lemma read_digits_acc: "read_digits acc cs = acc * 10 ^ length cs + read_digits 0 cs"
proof (induction cs arbitrary: acc)
  case Nil
  show ?case by simp
next
  case (Cons c cs)
  have "read_digits acc (c # cs) = (10 * acc + digit_val c) * 10 ^ length cs + read_digits 0 cs"
    by (simp add: Cons.IH [of "10 * acc + digit_val c"])
  also have "\<dots> = acc * 10 ^ length (c # cs) + (digit_val c * 10 ^ length cs + read_digits 0 cs)"
    by (simp add: algebra_simps)
  also have "digit_val c * 10 ^ length cs + read_digits 0 cs = read_digits 0 (c # cs)"
    by (simp add: Cons.IH [of "digit_val c"])
  finally show ?case .
qed

lemma read_digits10 [simp]: "0 \<le> n \<Longrightarrow> read_digits 0 (digits10 n) = n"
proof (induction n rule: digits10.induct)
  case (1 n)
  show ?case
  proof (cases "n < 10")
    case True
    with "1.prems" show ?thesis by simp
  next
    case False
    with "1.IH" have "read_digits 0 (digits10 (n div 10)) = n div 10" by simp
    with False show ?thesis by (simp add: digits10_large)
  qed
qed

lemma digits10_inj: "0 \<le> m \<Longrightarrow> 0 \<le> n \<Longrightarrow> digits10 m = digits10 n \<Longrightarrow> m = n"
  by (metis read_digits10)

lemma digit_count_pos: "0 < n \<Longrightarrow> 1 < b \<Longrightarrow> digit_count b n = Suc (digit_count b (n div b))"
  by (subst digit_count.simps) simp

lemma digit_count_nonpos [simp]: "n \<le> 0 \<Longrightarrow> digit_count b n = 0"
  by (subst digit_count.simps) simp

lemma digit_count_bounds:
  "0 < n \<Longrightarrow> 1 < b \<Longrightarrow> b ^ (digit_count b n - 1) \<le> n \<and> n < b ^ digit_count b n"
proof (induction b n rule: digit_count.induct)
  case (1 b n)
  let ?d = "digit_count b (n div b)"
  have n: "n = b * (n div b) + n mod b" by simp
  have m: "0 \<le> n mod b" "n mod b < b" using "1.prems" by simp_all
  show ?case
  proof (cases "n div b = 0")
    case True
    with n m "1.prems" show ?thesis by (simp add: digit_count_pos)
  next
    case False
    from "1.prems" have "0 \<le> n div b" by (simp add: pos_imp_zdiv_nonneg_iff)
    with False have pos: "0 < n div b" by simp
    with "1.IH" "1.prems" have IH: "b ^ (?d - 1) \<le> n div b" "n div b < b ^ ?d" by simp_all
    from pos "1.prems" have d: "?d = Suc (?d - 1)" by (simp add: digit_count_pos)
    have "b * b ^ (?d - 1) \<le> b * (n div b)" using IH(1) "1.prems" by simp
    then have lo: "b ^ ?d \<le> n" using n m d by (metis add_increasing2 power_Suc)
    have "n div b + 1 \<le> b ^ ?d" using IH(2) by simp
    then have "b * (n div b + 1) \<le> b * b ^ ?d" using "1.prems" by simp
    then have "b * (n div b) + b \<le> b * b ^ ?d" by (simp add: algebra_simps)
    moreover from n m have "n < b * (n div b) + b" by linarith
    ultimately have hi: "n < b * b ^ ?d" by linarith
    from lo hi "1.prems" show ?thesis by (simp add: digit_count_pos)
  qed
qed

lemma digit_count_unique:
  assumes "1 < b" and "b ^ k \<le> n" and "n < b ^ Suc k"
  shows "digit_count b n = Suc k"
proof -
  from assms(1) have "0 < b ^ k" by simp
  with assms(2) have n: "0 < n" by linarith
  let ?d = "digit_count b n"
  from digit_count_bounds [OF n assms(1)] have lo: "b ^ (?d - 1) \<le> n" and hi: "n < b ^ ?d"
    by simp_all
  from assms(2) hi have "b ^ k < b ^ ?d" by simp
  with assms(1) have 1: "k < ?d" by (rule power_less_imp_less_exp)
  from lo assms(3) have "b ^ (?d - 1) < b ^ Suc k" by simp
  with assms(1) have 2: "?d - 1 < Suc k" by (rule power_less_imp_less_exp)
  from 1 2 show ?thesis by simp
qed

lemma length_digits10: "0 < n \<Longrightarrow> length (digits10 n) = digit_count 10 n"
proof (induction n rule: digits10.induct)
  case (1 n)
  show ?case
  proof (cases "n < 10")
    case True
    with "1.prems" have "digit_count 10 n = Suc 0"
      by (intro digit_count_unique) simp_all
    with True show ?thesis by simp
  next
    case False
    with "1.IH" have "length (digits10 (n div 10)) = digit_count 10 (n div 10)" by simp
    with False "1.prems" show ?thesis by (simp add: digits10_large digit_count_pos)
  qed
qed

lemma length_zero_pad [simp]: "length (zero_pad w s) = max w (length s)"
  by (simp add: zero_pad_def)

lemma zero_pad_id [simp]: "w \<le> length s \<Longrightarrow> zero_pad w s = s"
  by (simp add: zero_pad_def)

lemma read_digits_replicate_0 [simp]: "read_digits acc (replicate k (CHR ''0'')) = acc * 10 ^ k"
  by (induction k arbitrary: acc) (simp_all add: digit_val_def)

lemma read_digits_zero_pad [simp]: "read_digits 0 (zero_pad w s) = read_digits 0 s"
  by (simp add: zero_pad_def)

lemma list_all_is_digit_zero_pad [simp]:
  "list_all is_digit (zero_pad w s) \<longleftrightarrow> list_all is_digit s"
  by (auto simp: zero_pad_def list_all_iff is_digit_def)

section \<open>Digits of multiples of powers of ten\<close>

lemma digit_count_le:
  assumes "0 < n" and "1 < b" and "n < b ^ k"
  shows "digit_count b n \<le> k"
proof -
  from digit_count_bounds [OF assms(1,2)] assms(3) have "b ^ (digit_count b n - 1) < b ^ k" by simp
  with assms(2) have "digit_count b n - 1 < k" by (rule power_less_imp_less_exp)
  then show ?thesis by simp
qed

lemma digit_count_positive: "0 < n \<Longrightarrow> 1 < b \<Longrightarrow> 0 < digit_count b n"
  by (simp add: digit_count_pos)

lemma digits10_times_10: "0 < m \<Longrightarrow> digits10 (10 * m) = digits10 m @ ''0''"
  by (simp add: digits10_large digit_char_def)

lemma digits10_shift: "0 < m \<Longrightarrow> digits10 (m * 10 ^ z) = digits10 m @ replicate z (CHR ''0'')"
proof (induction z)
  case (Suc z)
  have "digits10 (m * 10 ^ Suc z) = digits10 (10 * (m * 10 ^ z))" by (simp add: mult_ac)
  also have "\<dots> = digits10 (m * 10 ^ z) @ ''0''" using Suc.prems by (intro digits10_times_10) simp
  finally show ?case using Suc by (simp add: replicate_append_same)
qed simp

lemma int_div_ge: "0 < w \<Longrightarrow> x * w \<le> n \<Longrightarrow> x \<le> n div (w::int)"
  using zdiv_mono1 [of "x * w" n w] by simp

lemma int_div_less: "0 < w \<Longrightarrow> n < y * w \<Longrightarrow> n div (w::int) < y"
proof -
  assume w: "0 < w" and n: "n < y * w"
  have "n div w * w + n mod w = n" by (rule div_mult_mod_eq)
  moreover have "0 \<le> n mod w" using w by simp
  ultimately have "n div w * w < y * w" using n by linarith
  with w show ?thesis by (simp add: mult_less_cancel_right)
qed

lemma digit_count_div:
  assumes "0 < n" and "z < digit_count 10 n"
  shows "digit_count 10 (n div 10 ^ z) = digit_count 10 n - z"
proof -
  let ?D = "digit_count 10 n"
  from digit_count_bounds [OF assms(1)] have lo: "10 ^ (?D - 1) \<le> n" and hi: "n < 10 ^ ?D" by simp_all
  have s: "?D - 1 = (?D - z - 1) + z" "?D = Suc (?D - z - 1) + z" using assms(2) by simp_all
  have "(10::int) ^ (?D - z - 1) * 10 ^ z \<le> n" using lo by (subst (asm) s(1)) (simp only: power_add)
  then have 1: "10 ^ (?D - z - 1) \<le> n div 10 ^ z" by (intro int_div_ge) simp_all
  have "n < 10 ^ Suc (?D - z - 1) * 10 ^ z" using hi by (subst (asm) s(2)) (simp only: power_add)
  then have 2: "n div 10 ^ z < 10 ^ Suc (?D - z - 1)" by (intro int_div_less) simp_all
  from digit_count_unique [OF _ 1 2] assms(2) show ?thesis by simp
qed

end
