(* ===== verification/JSNumber.thy ===== *)
theory JSNumber
  imports Prelude
begin

text \<open>
  The JavaScript Number operations the views call, modelled from ECMAScript: the value
  domain (\<open>number\<close>: a finite value as the exact rational of the IEEE double, \<open>NaN\<close>, the two
  infinities), conversion of a decimal literal or JSON number to the nearest double
  (\<open>round_to_double\<close>, round-half-even on a 53-bit significand, overflow to infinity,
  gradual underflow), \<open>ToNumber\<close> on absent values, the relational operator \<open><\<close>
  (\<open>number_less\<close>), \<open>Math.round\<close>, \<open>ToIntegerOrInfinity\<close>, \<open>String.prototype.repeat\<close>,
  \<open>Number.prototype.toFixed\<close> and \<open>Number::toString\<close> (shortest digits that read back as
  the same double, in the four layouts of the standard).

  Negative zero is not represented: none of the operations above distinguishes it from
  \<open>+0\<close> (\<open>-0 < 10\<close>, \<open>(-0).toFixed(2) = "0.00"\<close>, \<open>String(-0) = "0"\<close>,
  \<open>'x'.repeat(-0) = ''\<close>). The search for the shortest digit string is bounded by 17
  digits, the number that identifies every double. \<open>String_repeat\<close> has the two guards of
  the standard and no maximal string length.

  The lemmas come in four groups: comparison, rounding and \<open>repeat\<close> on every kind of
  Number; the fixed-point layout of \<open>toFixed\<close> with the reference reader \<open>read_fixed\<close>
  (\<open>fixed_string_layout\<close>); integers below \<open>2\<^sup>5\<^sup>3\<close> are doubles
  (\<open>round_to_double_of_int\<close>); and \<open>toString\<close> prints an integer of magnitude below
  \<open>10\<^sup>1\<^sup>5\<close> as its decimal numeral (\<open>Number_toString_of_int\<close>).
\<close>

section \<open>The value domain\<close>

datatype number = Finite rat | NaN | PosInfinity | NegInfinity

datatype integer_or_infinity = IntegerValue int | PlusInfinity | MinusInfinity

definition pow2 :: "int \<Rightarrow> rat" where
  "pow2 e = (if 0 \<le> e then 2 ^ nat e else 1 / 2 ^ nat (- e))"

definition pow10 :: "int \<Rightarrow> rat" where
  "pow10 e = (if 0 \<le> e then 10 ^ nat e else 1 / 10 ^ nat (- e))"

definition ilog :: "int \<Rightarrow> rat \<Rightarrow> int" where
  "ilog b a = (if 1 \<le> a then int (digit_count b \<lfloor>a\<rfloor>) - 1
               else - int (digit_count b (\<lceil>1 / a\<rceil> - 1)))"

definition round_half_even :: "rat \<Rightarrow> int" where
  "round_half_even y =
     (let f = \<lfloor>y\<rfloor>; d = y - of_int f
      in if d < 1 / 2 then f else if 1 / 2 < d then f + 1 else if even f then f else f + 1)"

definition round_to_double :: "rat \<Rightarrow> number" where
  "round_to_double q =
     (if q = 0 then Finite 0
      else let a = \<bar>q\<bar>; e = max (ilog 2 a) (- 1022); m = round_half_even (a / pow2 (e - 52))
           in if 1023 < e \<or> (e = 1023 \<and> m = 2 ^ 53)
              then (if 0 < q then PosInfinity else NegInfinity)
              else Finite (sgn q * of_int m * pow2 (e - 52)))"

section \<open>Conversions and comparison\<close>

fun ToNumber :: "number maybe \<Rightarrow> number" where
  "ToNumber (Val x) = x"
| "ToNumber Undefined = NaN"
| "ToNumber Null = Finite 0"

fun number_less :: "number \<Rightarrow> number \<Rightarrow> bool" where
  "number_less (Finite a) (Finite b) = (a < b)"
| "number_less (Finite a) PosInfinity = True"
| "number_less NegInfinity (Finite b) = True"
| "number_less NegInfinity PosInfinity = True"
| "number_less x y = False"

fun Math_round :: "number \<Rightarrow> number" where
  "Math_round (Finite q) = Finite (of_int \<lfloor>q + 1 / 2\<rfloor>)"
| "Math_round x = x"

fun ToIntegerOrInfinity :: "number \<Rightarrow> integer_or_infinity" where
  "ToIntegerOrInfinity (Finite q) = IntegerValue (if 0 \<le> q then \<lfloor>q\<rfloor> else \<lceil>q\<rceil>)"
| "ToIntegerOrInfinity NaN = IntegerValue 0"
| "ToIntegerOrInfinity PosInfinity = PlusInfinity"
| "ToIntegerOrInfinity NegInfinity = MinusInfinity"

fun String_repeat :: "string \<Rightarrow> number \<Rightarrow> string result" where
  "String_repeat s c =
     (case ToIntegerOrInfinity c of
        IntegerValue n \<Rightarrow> if n < 0 then Inl RangeError else Inr (repeat_string (nat n) s)
      | PlusInfinity \<Rightarrow> Inl RangeError
      | MinusInfinity \<Rightarrow> Inl RangeError)"

section \<open>Number::toString\<close>

definition decimal_exponent :: "rat \<Rightarrow> int" where
  "decimal_exponent a = ilog 10 a + 1"

definition digit_candidates :: "rat \<Rightarrow> nat \<Rightarrow> (int \<times> int) list" where
  "digit_candidates a k =
     (let n = decimal_exponent a; lo = \<lfloor>a / pow10 (n - int k)\<rfloor>
      in filter (\<lambda>(s, n'). round_to_double (of_int s * pow10 (n' - int k)) = Finite a)
           [(lo, n), (if lo + 1 = 10 ^ k then (10 ^ (k - 1), n + 1) else (lo + 1, n))])"

definition digit_error :: "rat \<Rightarrow> nat \<Rightarrow> int \<times> int \<Rightarrow> rat" where
  "digit_error a k c = \<bar>of_int (fst c) * pow10 (snd c - int k) - a\<bar>"

definition closest_candidate :: "rat \<Rightarrow> nat \<Rightarrow> (int \<times> int) option" where
  "closest_candidate a k =
     (case digit_candidates a k of
        [] \<Rightarrow> None
      | [c] \<Rightarrow> Some c
      | c # d # cs \<Rightarrow>
          Some (if digit_error a k c < digit_error a k d then c
                else if digit_error a k d < digit_error a k c then d
                else if even (fst c) then c else d))"

fun shortest_from :: "rat \<Rightarrow> nat \<Rightarrow> nat \<Rightarrow> nat \<times> int \<times> int" where
  "shortest_from a k 0 = (k, \<lfloor>a / pow10 (decimal_exponent a - int k)\<rfloor>, decimal_exponent a)"
| "shortest_from a k (Suc fuel) =
     (case closest_candidate a k of
        Some (s, n) \<Rightarrow> (k, s, n)
      | None \<Rightarrow> shortest_from a (Suc k) fuel)"

definition shortest_digits :: "rat \<Rightarrow> nat \<times> int \<times> int" where
  "shortest_digits a = shortest_from a 1 17"

definition format_digits :: "string \<Rightarrow> int \<Rightarrow> string" where
  "format_digits ds n =
     (let k = int (length ds)
      in if - 5 \<le> n \<and> n \<le> 21
         then (if k \<le> n then ds @ replicate (nat (n - k)) (CHR ''0'')
               else if 0 < n then take (nat n) ds @ ''.'' @ drop (nat n) ds
               else ''0.'' @ replicate (nat (- n)) (CHR ''0'') @ ds)
         else (let e = n - 1; c = (if e < 0 then ''-'' else ''+''); d = digits10 \<bar>e\<bar>
               in if k = 1 then ds @ ''e'' @ c @ d
                  else take 1 ds @ ''.'' @ drop 1 ds @ ''e'' @ c @ d))"

definition positive_toString :: "rat \<Rightarrow> string" where
  "positive_toString a = (case shortest_digits a of (k, s, n) \<Rightarrow> format_digits (digits10 s) n)"

fun Number_toString :: "number \<Rightarrow> string" where
  "Number_toString NaN = ''NaN''"
| "Number_toString PosInfinity = ''Infinity''"
| "Number_toString NegInfinity = ''-Infinity''"
| "Number_toString (Finite q) =
     (if q = 0 then ''0''
      else if q < 0 then ''-'' @ positive_toString (- q)
      else positive_toString q)"

section \<open>Number.prototype.toFixed\<close>

definition fixed_digits :: "nat \<Rightarrow> rat \<Rightarrow> int" where
  "fixed_digits f a = \<lfloor>a * 10 ^ f + 1 / 2\<rfloor>"

definition point_string :: "nat \<Rightarrow> string \<Rightarrow> string" where
  "point_string f m =
     (if f = 0 then m
      else let z = zero_pad (f + 1) m; k = length z
           in take (k - f) z @ ''.'' @ drop (k - f) z)"

definition fixed_string :: "nat \<Rightarrow> rat \<Rightarrow> string" where
  "fixed_string f q =
     (let s = (if q < 0 then ''-'' else ''''); a = \<bar>q\<bar>
      in if 10 ^ 21 \<le> a then s @ Number_toString (Finite a)
         else s @ point_string f (digits10 (fixed_digits f a)))"

definition Number_toFixed :: "int \<Rightarrow> number \<Rightarrow> string result" where
  "Number_toFixed f x =
     (if f < 0 \<or> 100 < f then Inl RangeError
      else Inr (case x of Finite q \<Rightarrow> fixed_string (nat f) q | _ \<Rightarrow> Number_toString x))"

section \<open>Reference definitions for the fixed-point layout\<close>

text \<open>
  \<open>frac_digits f n\<close> are the last \<open>f\<close> decimal digits of \<open>n\<close>, zeros included; \<open>read_fixed\<close>
  reads a string \<open>[-]digits.digits\<close> back as a rational. They specify \<open>point_string\<close> and
  \<open>fixed_string\<close>.
\<close>

fun frac_digits :: "nat \<Rightarrow> int \<Rightarrow> string" where
  "frac_digits 0 n = []"
| "frac_digits (Suc f) n = frac_digits f (n div 10) @ [digit_char (n mod 10)]"

definition read_unsigned :: "string \<Rightarrow> rat" where
  "read_unsigned s =
     (let i = takeWhile is_digit s; r = drop (Suc (length i)) s
      in of_int (read_digits 0 i) + of_int (read_digits 0 r) / 10 ^ length r)"

fun read_fixed :: "string \<Rightarrow> rat" where
  "read_fixed [] = 0"
| "read_fixed (c # cs) = (if c = CHR ''-'' then - read_unsigned cs else read_unsigned (c # cs))"

section \<open>Lemmas: comparison, rounding, repeat\<close>

lemma number_less_Finite_iff:
  "number_less x (Finite b) \<longleftrightarrow> x = NegInfinity \<or> (\<exists>a. x = Finite a \<and> a < b)"
  by (cases x) simp_all

lemma number_less_ToNumber_iff:
  "number_less (ToNumber m) (Finite b) \<longleftrightarrow>
     m = Val NegInfinity \<or> (\<exists>a. m = Val (Finite a) \<and> a < b) \<or> (m = Null \<and> 0 < b)"
  by (cases m) (auto simp: number_less_Finite_iff)

lemma ToIntegerOrInfinity_of_int [simp]:
  "ToIntegerOrInfinity (Finite (of_int k)) = IntegerValue k"
  by simp

lemma String_repeat_Math_round_Finite:
  "String_repeat s (Math_round (Finite q)) =
     (if q < - 1 / 2 then Inl RangeError else Inr (repeat_string (nat \<lfloor>q + 1 / 2\<rfloor>) s))"
proof -
  have "\<lfloor>q + 1 / 2\<rfloor> < 0 \<longleftrightarrow> q < - 1 / 2"
    by (simp add: floor_less_iff) linarith
  then show ?thesis by simp
qed

lemma String_repeat_Math_round_NaN [simp]: "String_repeat s (Math_round NaN) = Inr []"
  by simp

lemma String_repeat_Math_round_infinite [simp]:
  "String_repeat s (Math_round PosInfinity) = Inl RangeError"
  "String_repeat s (Math_round NegInfinity) = Inl RangeError"
  by simp_all

lemma String_repeat_ok_iff:
  "is_ok (String_repeat s (Math_round x)) \<longleftrightarrow> x = NaN \<or> (\<exists>q. x = Finite q \<and> - 1 / 2 \<le> q)"
  by (cases x) (auto simp: String_repeat_Math_round_Finite simp del: String_repeat.simps Math_round.simps)

lemma round_error_le_half: "\<bar>of_int \<lfloor>q + 1 / 2\<rfloor> - q\<bar> \<le> (1 / 2 :: rat)"
proof -
  have "of_int \<lfloor>q + 1 / 2\<rfloor> \<le> q + 1 / 2" by (rule of_int_floor_le)
  moreover have "q + 1 / 2 < of_int \<lfloor>q + 1 / 2\<rfloor> + 1" by linarith
  ultimately show ?thesis by linarith
qed

section \<open>Lemmas: the fixed-point layout\<close>

lemma length_frac_digits [simp]: "length (frac_digits f n) = f"
  by (induction f arbitrary: n) simp_all

lemma frac_digits_all_digits [simp]: "list_all is_digit (frac_digits f n)"
  by (induction f arbitrary: n) simp_all

lemma read_frac_digits: "0 \<le> n \<Longrightarrow> read_digits 0 (frac_digits f n) = n mod 10 ^ f"
proof (induction f arbitrary: n)
  case 0
  show ?case by simp
next
  case (Suc f)
  from Suc.prems have "0 \<le> n div 10" by simp
  then have "read_digits 0 (frac_digits f (n div 10)) = (n div 10) mod 10 ^ f" by (rule Suc.IH)
  moreover have "0 \<le> n mod 10" "n mod 10 < 10" by simp_all
  moreover have "n mod (10 * 10 ^ f) = 10 * ((n div 10) mod 10 ^ f) + n mod 10"
    by (simp add: zmod_zmult2_eq)
  ultimately show ?case by simp
qed

lemma zero_pad_snoc:
  "zero_pad (Suc w) (s @ [c]) = zero_pad w s @ [c]"
  by (simp add: zero_pad_def)

lemma zero_pad_digits10_step:
  "0 \<le> n \<Longrightarrow>
   zero_pad (Suc (Suc f)) (digits10 n) = zero_pad (Suc f) (digits10 (n div 10)) @ [digit_char (n mod 10)]"
proof (cases "n < 10")
  case True
  moreover assume "0 \<le> n"
  ultimately show ?thesis
    by (simp add: zero_pad_def digit_char_def replicate_append_same)
next
  case False
  then show ?thesis by (simp add: digits10_large zero_pad_snoc)
qed

lemma zero_pad_digits10_split:
  "0 \<le> n \<Longrightarrow> zero_pad (Suc f) (digits10 n) = digits10 (n div 10 ^ f) @ frac_digits f n"
proof (induction f arbitrary: n)
  case 0
  have "1 \<le> length (digits10 n)" by (simp add: Suc_le_eq)
  then show ?case by simp
next
  case (Suc f)
  from Suc.prems have "0 \<le> n div 10" by simp
  then have "zero_pad (Suc f) (digits10 (n div 10)) = digits10 (n div 10 div 10 ^ f) @ frac_digits f (n div 10)"
    by (rule Suc.IH)
  with Suc.prems show ?case
    by (simp add: zero_pad_digits10_step zdiv_zmult2_eq)
qed

lemma point_string_digits10:
  assumes "0 \<le> n" and "0 < f"
  shows "point_string f (digits10 n) = digits10 (n div 10 ^ f) @ ''.'' @ frac_digits f n"
proof -
  from assms(2) obtain g where f: "f = Suc g" by (cases f) auto
  let ?z = "zero_pad (Suc f) (digits10 n)"
  have z: "?z = digits10 (n div 10 ^ f) @ frac_digits f n"
    using assms(1) by (rule zero_pad_digits10_split)
  then have "length ?z - f = length (digits10 (n div 10 ^ f))" by simp
  with z assms(2) show ?thesis
    by (simp add: point_string_def Let_def)
qed

lemma fixed_digits_nonneg: "0 \<le> a \<Longrightarrow> 0 \<le> fixed_digits f a"
  by (simp add: fixed_digits_def)

lemma fixed_digits_error: "\<bar>of_int (fixed_digits f a) / 10 ^ f - a\<bar> \<le> 1 / (2 * 10 ^ f)"
proof -
  have "\<bar>of_int \<lfloor>a * 10 ^ f + 1 / 2\<rfloor> - a * 10 ^ f\<bar> \<le> 1 / 2"
    by (rule round_error_le_half)
  then have "\<bar>of_int (fixed_digits f a) - a * 10 ^ f\<bar> / 10 ^ f \<le> (1 / 2) / 10 ^ f"
    unfolding fixed_digits_def by (rule divide_right_mono) simp
  moreover have "\<bar>of_int (fixed_digits f a) - a * 10 ^ f\<bar> / 10 ^ f = \<bar>of_int (fixed_digits f a) / 10 ^ f - a\<bar>"
  proof -
    have t: "(0::rat) < 10 ^ f" by simp
    have "of_int (fixed_digits f a) / 10 ^ f - a = (of_int (fixed_digits f a) - a * 10 ^ f) / 10 ^ f"
      by (simp add: diff_divide_distrib)
    then show ?thesis using t by (simp only: abs_divide abs_of_pos)
  qed
  ultimately show ?thesis by simp
qed

lemma fixed_string_small:
  assumes "0 \<le> a" and "a < 10 ^ 21" and "0 < f"
  shows "fixed_string f a =
           digits10 (fixed_digits f a div 10 ^ f) @ ''.'' @ frac_digits f (fixed_digits f a)"
  using assms by (simp add: fixed_string_def point_string_digits10 fixed_digits_nonneg)

lemma fixed_string_negative:
  assumes "a < 0" and "- (10 ^ 21) < a" and "0 < f"
  shows "fixed_string f a =
           ''-'' @ digits10 (fixed_digits f (- a) div 10 ^ f) @ ''.'' @ frac_digits f (fixed_digits f (- a))"
  using assms by (simp add: fixed_string_def Let_def point_string_digits10 fixed_digits_nonneg)

lemma Number_toFixed_Finite:
  "0 \<le> f \<Longrightarrow> f \<le> 100 \<Longrightarrow> Number_toFixed f (Finite q) = Inr (fixed_string (nat f) q)"
  by (simp add: Number_toFixed_def)

lemma Number_toFixed_ok [simp]: "0 \<le> f \<Longrightarrow> f \<le> 100 \<Longrightarrow> is_ok (Number_toFixed f x)"
  by (simp add: Number_toFixed_def)

lemma Number_toFixed_range: "f < 0 \<or> 100 < f \<Longrightarrow> Number_toFixed f x = Inl RangeError"
  by (simp add: Number_toFixed_def)

lemma takeWhile_digits_point:
  "list_all is_digit ds \<Longrightarrow> takeWhile is_digit (ds @ CHR ''.'' # r) = ds"
  by (induction ds) (simp_all add: is_digit_def)

lemma read_unsigned_point:
  assumes "list_all is_digit ds"
  shows "read_unsigned (ds @ CHR ''.'' # r) = of_int (read_digits 0 ds) + of_int (read_digits 0 r) / 10 ^ length r"
  using assms by (simp add: read_unsigned_def takeWhile_digits_point)

lemma read_unsigned_fixed:
  assumes "0 \<le> n"
  shows "read_unsigned (digits10 (n div 10 ^ f) @ ''.'' @ frac_digits f n) = of_int n / 10 ^ f"
proof -
  from assms have d: "0 \<le> n div 10 ^ f" by (simp add: pos_imp_zdiv_nonneg_iff)
  have "(of_int (n div 10 ^ f) :: rat) + of_int (n mod 10 ^ f) / 10 ^ f = of_int n / 10 ^ f"
  proof -
    have "n = (n div 10 ^ f) * 10 ^ f + n mod 10 ^ f" by (rule div_mult_mod_eq [symmetric])
    then have "(of_int n :: rat) = of_int (n div 10 ^ f) * 10 ^ f + of_int (n mod 10 ^ f)"
      by (metis of_int_add of_int_mult of_int_numeral of_int_power)
    then show ?thesis by (simp add: add_divide_distrib)
  qed
  with assms d show ?thesis
    by (simp add: read_unsigned_point read_frac_digits)
qed

section \<open>Lemmas: integers are doubles\<close>

lemma ilog_of_int: "1 \<le> n \<Longrightarrow> ilog b (of_int n) = int (digit_count b n) - 1"
  by (simp add: ilog_def)

lemma decimal_exponent_of_int: "1 \<le> n \<Longrightarrow> decimal_exponent (of_int n) = int (digit_count 10 n)"
  by (simp add: decimal_exponent_def ilog_of_int)

lemma round_half_even_of_int [simp]: "round_half_even (of_int k) = k"
  by (simp add: round_half_even_def)

lemma pow2_nonpos: "e \<le> 0 \<Longrightarrow> pow2 e = 1 / 2 ^ nat (- e)"
  by (auto simp: pow2_def)

lemma pow10_nonneg: "0 \<le> e \<Longrightarrow> pow10 e = of_int (10 ^ nat e)"
  by (simp add: pow10_def)

lemma round_to_double_pos:
  "0 < q \<Longrightarrow> round_to_double q =
     (let e = max (ilog 2 q) (- 1022); m = round_half_even (q / pow2 (e - 52))
      in if 1023 < e \<or> (e = 1023 \<and> m = 2 ^ 53) then PosInfinity
         else Finite (of_int m * pow2 (e - 52)))"
  by (auto simp: round_to_double_def Let_def)

lemma round_to_double_of_int:
  assumes "0 < n" and "n < 2 ^ 53"
  shows "round_to_double (of_int n) = Finite (of_int n)"
proof -
  let ?d = "digit_count 2 n"
  have d: "0 < ?d" "?d \<le> 53" using assms by (simp_all add: digit_count_positive digit_count_le)
  define e where "e = int ?d - 1"
  define k where "k = nat (52 - e)"
  have e: "ilog 2 (of_int n) = e" using assms(1) by (simp add: ilog_of_int e_def)
  have e0: "0 \<le> e" "e \<le> 52" using d by (simp_all add: e_def)
  have p: "pow2 (e - 52) = 1 / 2 ^ k" using e0 by (simp add: pow2_nonpos k_def)
  have "(of_int n :: rat) / pow2 (e - 52) = of_int (n * 2 ^ k)" by (simp add: p)
  then have m: "round_half_even (of_int n / pow2 (e - 52)) = n * 2 ^ k"
    by (simp only: round_half_even_of_int)
  have x: "max e (- 1022) = e" "\<not> 1023 < e" "e \<noteq> 1023" using e0 by simp_all
  have "round_to_double (of_int n) = Finite (of_int (n * 2 ^ k) * pow2 (e - 52))"
    using assms(1) by (simp add: round_to_double_pos e x m)
  also have "\<dots> = Finite (of_int n)" by (simp add: p)
  finally show ?thesis .
qed

section \<open>Lemmas: Number::toString on integers\<close>

lemma round_to_double_numeral [simp]:
  "numeral k < (2 ^ 53 :: int) \<Longrightarrow> round_to_double (numeral k) = Finite (numeral k)"
  using round_to_double_of_int [of "numeral k"] by simp

lemma round_to_double_of_int_eq_iff:
  "0 < v \<Longrightarrow> v < 2 ^ 53 \<Longrightarrow> round_to_double (of_int v) = Finite (of_int u) \<longleftrightarrow> v = u"
  by (simp add: round_to_double_of_int)

lemma candidate_bounds:
  assumes "0 < n" and "1 \<le> k" and "k \<le> digit_count 10 n"
  defines "w \<equiv> 10 ^ (digit_count 10 n - k)"
  shows "0 < n div w * w" and "n div w * w \<le> n" and "n < (n div w + 1) * w"
    and "(n div w + 1) * w \<le> 10 ^ digit_count 10 n"
proof -
  let ?D = "digit_count 10 n"
  have w: "0 < w" by (simp add: w_def)
  from digit_count_bounds [OF assms(1)] have nlo: "10 ^ (?D - 1) \<le> n" and nhi: "n < 10 ^ ?D"
    by simp_all
  have split: "(10::int) ^ ?D = 10 ^ k * w" "(10::int) ^ (?D - 1) = 10 ^ (k - 1) * w"
    using assms(2,3) by (simp_all add: w_def flip: power_add)
  have "n < 10 ^ k * w" using nhi by (simp only: split)
  with w have hi: "n div w < 10 ^ k" by (rule int_div_less)
  have "10 ^ (k - 1) * w \<le> n" using nlo by (simp only: split)
  with w have "10 ^ (k - 1) \<le> n div w" by (rule int_div_ge)
  then have "0 < n div w" by (smt (verit) zero_less_power)
  with w show "0 < n div w * w" by simp
  have m: "n div w * w + n mod w = n" by (rule div_mult_mod_eq)
  have "0 \<le> n mod w" "n mod w < w" using w by simp_all
  with m show "n div w * w \<le> n" and "n < (n div w + 1) * w"
    by (simp_all only: distrib_right mult_1)
  from hi w show "(n div w + 1) * w \<le> 10 ^ ?D" by (simp add: split)
qed

lemma digit_candidates_of_int:
  assumes "0 < n" and "n < 10 ^ 15" and "1 \<le> k" and "k \<le> digit_count 10 n"
  shows "digit_candidates (of_int n) k =
           (if 10 ^ (digit_count 10 n - k) dvd n
            then [(n div 10 ^ (digit_count 10 n - k), int (digit_count 10 n))] else [])"
proof -
  define D where "D = digit_count 10 n"
  define w :: int where "w = 10 ^ (D - k)"
  define lo where "lo = n div w"
  note b = candidate_bounds [OF assms(1,3,4), folded D_def w_def lo_def]
  have kD: "k \<le> D" using assms(4) by (simp add: D_def)
  have "D \<le> 15" unfolding D_def using assms(1,2) by (intro digit_count_le) simp_all
  then have "(10::int) ^ D \<le> 10 ^ 15" by (intro power_increasing) simp_all
  with b(4) have v2: "(lo + 1) * w < 2 ^ 53" by simp
  with b have v1: "lo * w < 2 ^ 53" by simp
  have de: "decimal_exponent (of_int n) = int D"
    using assms(1) by (simp add: decimal_exponent_of_int D_def)
  have pw: "pow10 (int D - int k) = of_int w"
    using kD by (simp add: pow10_nonneg w_def nat_diff_distrib')
  have pw1: "pow10 (int D + 1 - int k) = of_int (10 * w)"
    using kD by (simp add: pow10_nonneg w_def nat_diff_distrib' nat_add_distrib Suc_diff_le)
  have fl: "\<lfloor>(of_int n :: rat) / of_int w\<rfloor> = lo" by (simp add: lo_def floor_divide_of_int_eq)
  have "round_to_double (of_int (lo * w)) = Finite (of_int n) \<longleftrightarrow> lo * w = n"
    using b(1) v1 by (rule round_to_double_of_int_eq_iff)
  also have "\<dots> \<longleftrightarrow> w dvd n" unfolding lo_def by (metis dvd_div_mult_self dvd_triv_right)
  finally have c1: "round_to_double (of_int lo * of_int w) = Finite (of_int n) \<longleftrightarrow> w dvd n"
    by simp
  have "0 < (lo + 1) * w" using assms(1) b(3) by linarith
  from round_to_double_of_int_eq_iff [OF this v2, of n] b(3)
  have c2: "round_to_double (of_int (lo + 1) * of_int w) \<noteq> Finite (of_int n)" by simp
  have c3: "round_to_double (of_int (10 ^ (k - 1)) * of_int (10 * w)) \<noteq> Finite (of_int n)"
    if "lo + 1 = 10 ^ k"
  proof -
    from that have "(10::int) ^ (k - 1) * (10 * w) = (lo + 1) * w"
      using assms(3) by (simp add: power_eq_if)
    then have eq: "(of_int (10 ^ (k - 1)) :: rat) * of_int (10 * w) = of_int (lo + 1) * of_int w"
      by (metis of_int_mult)
    show ?thesis unfolding eq by (rule c2)
  qed
  show ?thesis
    unfolding digit_candidates_def de Let_def pw fl D_def [symmetric] w_def [symmetric] lo_def [symmetric]
    using c1 c2 c3 by (simp add: pw pw1 de)
qed

lemma closest_candidate_of_int:
  assumes "0 < n" and "n < 10 ^ 15" and "1 \<le> k" and "k \<le> digit_count 10 n"
  shows "closest_candidate (of_int n) k =
           (if 10 ^ (digit_count 10 n - k) dvd n
            then Some (n div 10 ^ (digit_count 10 n - k), int (digit_count 10 n)) else None)"
  by (simp add: closest_candidate_def digit_candidates_of_int [OF assms])

lemma shortest_from_of_int:
  assumes "0 < n" and "n < 10 ^ 15"
  shows "1 \<le> k \<Longrightarrow> k \<le> digit_count 10 n \<Longrightarrow> digit_count 10 n - k < fuel \<Longrightarrow>
         \<exists>j\<ge>k. j \<le> digit_count 10 n \<and> 10 ^ (digit_count 10 n - j) dvd n \<and>
           shortest_from (of_int n) k fuel
             = (j, n div 10 ^ (digit_count 10 n - j), int (digit_count 10 n))"
proof (induction fuel arbitrary: k)
  case (Suc fuel)
  let ?D = "digit_count 10 n"
  show ?case
  proof (cases "10 ^ (?D - k) dvd n")
    case True
    with Suc.prems show ?thesis
      by (intro exI [of _ k]) (simp add: closest_candidate_of_int [OF assms])
  next
    case False
    then have "k \<noteq> ?D" by auto
    with Suc.prems have "1 \<le> Suc k" "Suc k \<le> ?D" "?D - Suc k < fuel" by simp_all
    from Suc.IH [OF this] obtain j where "Suc k \<le> j" "j \<le> ?D" "10 ^ (?D - j) dvd n"
      "shortest_from (of_int n) (Suc k) fuel = (j, n div 10 ^ (?D - j), int ?D)" by blast
    with False Suc.prems show ?thesis
      by (intro exI [of _ j]) (simp add: closest_candidate_of_int [OF assms])
  qed
qed simp

lemma format_digits_integer:
  assumes "0 < s" and "digit_count 10 s + z \<le> 21"
  shows "format_digits (digits10 s) (int (digit_count 10 s + z)) = digits10 (s * 10 ^ z)"
  using assms by (simp add: format_digits_def length_digits10 digits10_shift)

lemma positive_toString_of_int:
  assumes "0 < n" and "n < 10 ^ 15"
  shows "positive_toString (of_int n) = digits10 n"
proof -
  let ?D = "digit_count 10 n"
  have D: "0 < ?D" "?D \<le> 15" using assms by (simp_all add: digit_count_positive digit_count_le)
  then have "1 \<le> (1::nat)" "1 \<le> ?D" "?D - 1 < 17" by simp_all
  from shortest_from_of_int [OF assms this] obtain j where j: "1 \<le> j" "j \<le> ?D"
      and dvd: "10 ^ (?D - j) dvd n"
      and sh: "shortest_digits (of_int n) = (j, n div 10 ^ (?D - j), int ?D)"
    unfolding shortest_digits_def by blast
  define z where "z = ?D - j"
  define s where "s = n div 10 ^ z"
  have n: "s * 10 ^ z = n" using dvd by (simp add: s_def z_def)
  have z: "z < ?D" using j D by (simp add: z_def)
  have c: "digit_count 10 s = ?D - z" unfolding s_def using assms(1) z by (rule digit_count_div)
  have s0: "0 < s"
  proof (rule ccontr)
    assume "\<not> 0 < s"
    then have "digit_count 10 s = 0" by simp
    with c z show False by simp
  qed
  have "positive_toString (of_int n) = format_digits (digits10 s) (int (digit_count 10 s + z))"
    using z by (simp add: positive_toString_def sh s_def [symmetric] z_def [symmetric] c)
  also have "\<dots> = digits10 (s * 10 ^ z)" using s0 z D c by (intro format_digits_integer) simp_all
  finally show ?thesis by (simp add: n)
qed

lemma Number_toString_of_int:
  assumes "\<bar>n\<bar> < 10 ^ 15"
  shows "Number_toString (Finite (of_int n)) = (if n < 0 then ''-'' @ digits10 (- n) else digits10 n)"
proof -
  have "n < 0 \<Longrightarrow> positive_toString (- of_int n) = digits10 (- n)"
    using positive_toString_of_int [of "- n"] assms by simp
  moreover have "0 < n \<Longrightarrow> positive_toString (of_int n) = digits10 n"
    using positive_toString_of_int [of n] assms by simp
  ultimately show ?thesis by (auto simp: digit_char_def)
qed

lemma Number_toString_digit:
  assumes "0 \<le> n" and "n < 10"
  shows "Number_toString (Finite (of_int n)) = [digit_char n]"
  using assms Number_toString_of_int [of n] by simp

lemma read_fixed_digit_first:
  "is_digit c \<Longrightarrow> read_fixed (c # cs) = read_unsigned (c # cs)"
  by (auto simp: is_digit_def)

lemma read_fixed_digits10:
  "read_fixed (digits10 n @ r) = read_unsigned (digits10 n @ r)"
proof (cases "digits10 n")
  case Nil
  then show ?thesis by simp
next
  case (Cons c cs)
  have "list_all is_digit (digits10 n)" by simp
  with Cons have "is_digit c" by simp
  with Cons show ?thesis by (simp add: read_fixed_digit_first del: read_fixed.simps)
qed

lemma read_fixed_string_small:
  assumes "0 \<le> a" and "a < 10 ^ 21" and "0 < f"
  shows "read_fixed (fixed_string f a) = of_int (fixed_digits f a) / 10 ^ f"
proof -
  have "0 \<le> fixed_digits f a" using assms(1) by (rule fixed_digits_nonneg)
  then have "read_unsigned (digits10 (fixed_digits f a div 10 ^ f) @ ''.'' @ frac_digits f (fixed_digits f a))
      = of_int (fixed_digits f a) / 10 ^ f"
    by (rule read_unsigned_fixed)
  then show ?thesis
    by (simp only: fixed_string_small [OF assms] read_fixed_digits10)
qed

lemma fixed_string_layout:
  assumes "0 \<le> a" and "a < 10 ^ 21" and "0 < k"
  shows "\<exists>i f. fixed_string k a = i @ ''.'' @ f \<and> i \<noteq> [] \<and> list_all is_digit i
           \<and> list_all is_digit f \<and> length f = k
           \<and> read_fixed (i @ ''.'' @ f) = of_int \<lfloor>a * 10 ^ k + 1 / 2\<rfloor> / 10 ^ k
           \<and> \<bar>read_fixed (i @ ''.'' @ f) - a\<bar> \<le> 1 / (2 * 10 ^ k)"
proof -
  let ?n = "fixed_digits k a"
  let ?i = "digits10 (?n div 10 ^ k)" and ?f = "frac_digits k ?n"
  have s: "fixed_string k a = ?i @ ''.'' @ ?f" using assms by (rule fixed_string_small)
  have r: "read_fixed (?i @ ''.'' @ ?f) = of_int ?n / 10 ^ k"
    using read_fixed_string_small [OF assms] by (simp only: s)
  have e: "\<bar>read_fixed (?i @ ''.'' @ ?f) - a\<bar> \<le> 1 / (2 * 10 ^ k)"
    unfolding r by (rule fixed_digits_error)
  from s r e show ?thesis
    by (intro exI [of _ ?i] exI [of _ ?f]) (simp add: fixed_digits_def)
qed

end
