(* ===== verification/Markup.thy ===== *)
theory Markup
  imports JSNumber
begin

text \<open>
  The value a view returns: a tree of React elements. A JSX tag is an \<open>Element\<close> with its
  tag name (a host tag such as \<open>div\<close>, \<open>span\<close>, \<open>img\<close>, or a component such as \<open>Card\<close>,
  \<open>Link\<close>, \<open>Button\<close>), its props in source order and its children; a string literal or a
  string-valued expression among the children is a \<open>TextNode\<close>; an expression child that
  evaluates to \<open>undefined\<close> or \<open>null\<close> is \<open>Nothing\<close> (React renders no node for it). The
  type parameter \<open>'h\<close> is the type of event handlers carried by props.

  Class names come from CSS modules (\<open>styles.meta\<close>); the style sheets are not part of the
  sources, so a class is represented by its key in the \<open>styles\<close> object.

  Strings are byte strings: text outside ASCII (the star glyph) is its UTF-8 encoding.

  A tree is observed the way the tests observe the document: \<open>subtrees\<close> lists the nodes
  in document order, \<open>elements_where\<close> selects among them, \<open>element_text\<close> is the text an
  element holds directly, \<open>texts\<close> lists all text nodes, and \<open>string_prop\<close>, \<open>params_prop\<close>
  and \<open>handler_prop\<close> read a prop.
\<close>

section \<open>Elements\<close>

datatype 'h prop_value =
    StringProp "string maybe"
  | ParamsProp "(string \<times> string) list"
  | FlagProp bool
  | HandlerProp 'h

datatype 'h element =
    TextNode string
  | Nothing
  | Element string "(string \<times> 'h prop_value) list" "'h element list"

type_synonym 'h props = "(string \<times> 'h prop_value) list"

section \<open>Children computed from expressions\<close>

fun text_child :: "string maybe \<Rightarrow> 'h element" where
  "text_child (Val s) = TextNode s"
| "text_child Undefined = Nothing"
| "text_child Null = Nothing"

fun String_of :: "number maybe \<Rightarrow> string" where
  "String_of (Val x) = Number_toString x"
| "String_of Undefined = ''undefined''"
| "String_of Null = ''null''"

fun number_child :: "number maybe \<Rightarrow> 'h element" where
  "number_child (Val x) = TextNode (Number_toString x)"
| "number_child Undefined = Nothing"
| "number_child Null = Nothing"

definition className :: "string \<Rightarrow> string \<times> 'h prop_value" where
  "className k = (''className'', StringProp (Val k))"

section \<open>Observations on a tree\<close>

fun own_text :: "'h element list \<Rightarrow> string" where
  "own_text [] = []"
| "own_text (TextNode s # es) = s @ own_text es"
| "own_text (e # es) = own_text es"

fun tag_of :: "'h element \<Rightarrow> string maybe" where
  "tag_of (Element t ps cs) = Val t"
| "tag_of e = Undefined"

fun props_of :: "'h element \<Rightarrow> 'h props" where
  "props_of (Element t ps cs) = ps"
| "props_of e = []"

fun children_of :: "'h element \<Rightarrow> 'h element list" where
  "children_of (Element t ps cs) = cs"
| "children_of e = []"

fun shown :: "string maybe \<Rightarrow> string" where
  "shown (Val s) = s"
| "shown m = []"

definition element_text :: "'h element \<Rightarrow> string" where
  "element_text e = own_text (children_of e)"

fun string_prop :: "'h props \<Rightarrow> string \<Rightarrow> string maybe" where
  "string_prop [] k = Undefined"
| "string_prop ((k', StringProp v) # ps) k = (if k' = k then v else string_prop ps k)"
| "string_prop (p # ps) k = string_prop ps k"

fun handler_prop :: "'h props \<Rightarrow> string \<Rightarrow> 'h option" where
  "handler_prop [] k = None"
| "handler_prop ((k', HandlerProp h) # ps) k = (if k' = k then Some h else handler_prop ps k)"
| "handler_prop (p # ps) k = handler_prop ps k"

fun params_prop :: "'h props \<Rightarrow> string \<Rightarrow> (string \<times> string) list option" where
  "params_prop [] k = None"
| "params_prop ((k', ParamsProp v) # ps) k = (if k' = k then Some v else params_prop ps k)"
| "params_prop (p # ps) k = params_prop ps k"

primrec subtrees :: "'h element \<Rightarrow> 'h element list" where
  "subtrees (TextNode s) = [TextNode s]"
| "subtrees Nothing = [Nothing]"
| "subtrees (Element t ps cs) = Element t ps cs # concat (map subtrees cs)"

fun node_text :: "'h element \<Rightarrow> string list" where
  "node_text (TextNode s) = [s]"
| "node_text e = []"

definition texts :: "'h element \<Rightarrow> string list" where
  "texts e = concat (map node_text (subtrees e))"

definition elements_where :: "('h element \<Rightarrow> bool) \<Rightarrow> 'h element \<Rightarrow> 'h element list" where
  "elements_where P e = filter P (subtrees e)"

definition has_class :: "string \<Rightarrow> 'h element \<Rightarrow> bool" where
  "has_class k e \<longleftrightarrow> string_prop (props_of e) ''className'' = Val k"

definition has_tag :: "string \<Rightarrow> 'h element \<Rightarrow> bool" where
  "has_tag t e \<longleftrightarrow> tag_of e = Val t"

lemma own_text_append [simp]: "own_text (xs @ ys) = own_text xs @ own_text ys"
  by (induction xs rule: own_text.induct) simp_all

lemma own_text_text_child [simp]: "own_text (text_child m # es) = shown m @ own_text es"
  by (cases m) simp_all

lemma own_text_number_child [simp]:
  "own_text (number_child m # es) = (case m of Val x \<Rightarrow> Number_toString x | _ \<Rightarrow> []) @ own_text es"
  by (cases m) simp_all

lemma subtrees_self [simp]: "e \<in> set (subtrees e)"
  by (cases e) simp_all

lemma subtrees_nonempty [simp]: "subtrees e \<noteq> []"
  by (cases e) simp_all

lemma text_child_tag [simp]: "tag_of (text_child m) = Undefined"
  by (cases m) simp_all

lemma text_child_props [simp]: "props_of (text_child m) = []"
  by (cases m) simp_all

lemma number_child_props [simp]: "props_of (number_child m) = []"
  by (cases m) simp_all

lemma subtrees_text_child [simp]: "subtrees (text_child m) = [text_child m]"
  by (cases m) simp_all

lemma subtrees_number_child [simp]: "subtrees (number_child m) = [number_child m]"
  by (cases m) simp_all

lemma number_child_tag [simp]: "tag_of (number_child m) = Undefined"
  by (cases m) simp_all

lemma node_text_text_child [simp]: "node_text (text_child m) = (case m of Val s \<Rightarrow> [s] | _ \<Rightarrow> [])"
  by (cases m) simp_all

lemma node_text_number_child [simp]:
  "node_text (number_child m) = (case m of Val x \<Rightarrow> [Number_toString x] | _ \<Rightarrow> [])"
  by (cases m) simp_all

lemma string_prop_className [simp]:
  "string_prop (className k # ps) ''className'' = Val k"
  by (simp add: className_def)

lemma has_class_className [simp]: "has_class k (Element t (className k' # ps) cs) \<longleftrightarrow> k = k'"
  by (auto simp: has_class_def)

end
