(* ===== verification/Product.thy ===== *)
theory Product
  imports Markup
begin

text \<open>
  The product record the views project into markup, and the accessor object \<open>useProduct()\<close>
  returns. The TypeScript interface \<open>Product\<close> is not among the sources; its fields are
  those of the fixtures \<open>mockProduct\<close> of the test files. Every field is a \<open>maybe\<close>: the tests
  render products with fields set to \<open>undefined\<close> and partial objects cast to \<open>Product\<close>. The
  field \<open>id\<close> of the source is \<open>pid\<close> here (\<open>id\<close> is HOL's identity function).

  \<open>wf_product\<close> is the data-model invariant of the specification (section 3): the identity
  an integer, the price a non-negative number, the rating in \<open>[0, 5]\<close>, the stock a
  non-negative integer; the other fields are free. \<open>accessor\<close> is the object
  \<open>{data, isLoading, isError, error}\<close>; the constructors \<open>loaded\<close>, \<open>loading\<close>, \<open>failed\<close> and
  \<open>idle\<close> build the four shapes the tests mock; the \<open>error\<close> field holds the message of
  the \<open>Error\<close> object. The fixtures are the test files' own.
\<close>

section \<open>Products\<close>

record product =
  pid :: "number maybe"
  title :: "string maybe"
  description :: "string maybe"
  category :: "string maybe"
  price :: "number maybe"
  rating :: "number maybe"
  stock :: "number maybe"
  brand :: "string maybe"
  availabilityStatus :: "string maybe"
  returnPolicy :: "string maybe"
  thumbnail :: "string maybe"
  images :: "string list maybe"

fun is_integer_number :: "number \<Rightarrow> bool" where
  "is_integer_number (Finite q) = (of_int \<lfloor>q\<rfloor> = q)"
| "is_integer_number x = False"

fun number_in :: "rat \<Rightarrow> rat \<Rightarrow> number maybe \<Rightarrow> bool" where
  "number_in lo hi (Val (Finite q)) = (lo \<le> q \<and> q \<le> hi)"
| "number_in lo hi m = False"

fun number_at_least :: "rat \<Rightarrow> number maybe \<Rightarrow> bool" where
  "number_at_least lo (Val (Finite q)) = (lo \<le> q)"
| "number_at_least lo m = False"

fun is_integer :: "number maybe \<Rightarrow> bool" where
  "is_integer (Val x) = is_integer_number x"
| "is_integer m = False"

fun integer_at_least :: "rat \<Rightarrow> number maybe \<Rightarrow> bool" where
  "integer_at_least lo (Val x) = (is_integer_number x \<and> number_at_least lo (Val x))"
| "integer_at_least lo m = False"

definition wf_product :: "product \<Rightarrow> bool" where
  "wf_product p \<longleftrightarrow>
     is_integer (pid p) \<and> number_at_least 0 (price p) \<and>
     number_in 0 5 (rating p) \<and> integer_at_least 0 (stock p)"

section \<open>The accessor object\<close>

record accessor =
  data :: "product maybe"
  isLoading :: bool
  isError :: bool
  error :: "string maybe"

definition loaded :: "product \<Rightarrow> accessor" where
  "loaded p = \<lparr>data = Val p, isLoading = False, isError = False, error = Null\<rparr>"

definition loading :: accessor where
  "loading = \<lparr>data = Undefined, isLoading = True, isError = False, error = Null\<rparr>"

definition failed :: "string \<Rightarrow> accessor" where
  "failed msg = \<lparr>data = Undefined, isLoading = False, isError = True, error = Val msg\<rparr>"

definition idle :: accessor where
  "idle = \<lparr>data = Undefined, isLoading = False, isError = False, error = Null\<rparr>"

section \<open>Fixtures of the test files\<close>

definition mockProduct :: product where
  "mockProduct =
     \<lparr>pid = Val (round_to_double 1),
      title = Val ''Test Product'',
      description = Val ''Test description'',
      category = Val ''Electronics'',
      price = Val (round_to_double (9999 / 100)),
      rating = Val (round_to_double (45 / 10)),
      stock = Val (round_to_double 10),
      brand = Val ''TestBrand'',
      availabilityStatus = Val ''In Stock'',
      returnPolicy = Val ''30 days'',
      thumbnail = Val ''https://example.com/thumb.jpg'',
      images = Val [''https://example.com/image1.jpg'']\<rparr>"

definition cardProduct :: product where
  "cardProduct = mockProduct\<lparr>stock := Val (round_to_double 5)\<rparr>"

definition highStockProduct :: product where
  "highStockProduct = cardProduct\<lparr>stock := Val (round_to_double 50)\<rparr>"

definition imageProduct :: product where
  "imageProduct =
     mockProduct\<lparr>images := Val [''https://example.com/image1.jpg'', ''https://example.com/image2.jpg'']\<rparr>"

definition ratedProduct :: product where
  "ratedProduct = mockProduct\<lparr>rating := Val (round_to_double (4567 / 1000))\<rparr>"

definition noBrandProduct :: product where
  "noBrandProduct = mockProduct\<lparr>brand := Undefined\<rparr>"

definition partialMetaProduct :: product where
  "partialMetaProduct =
     \<lparr>pid = Val (round_to_double 1), title = Undefined, description = Undefined,
      category = Val ''Test Category'', price = Undefined, rating = Undefined,
      stock = Val (round_to_double 5), brand = Undefined, availabilityStatus = Undefined,
      returnPolicy = Undefined, thumbnail = Undefined, images = Undefined\<rparr>"

lemmas fixture_defs =
  mockProduct_def cardProduct_def highStockProduct_def imageProduct_def ratedProduct_def
  noBrandProduct_def partialMetaProduct_def

lemmas accessor_defs = loaded_def loading_def failed_def idle_def

section \<open>Number literals of the fixtures\<close>

lemma round_to_double_0 [simp]: "round_to_double 0 = Finite 0"
  by (simp add: round_to_double_def)

lemma literal_1 [simp]: "round_to_double 1 = Finite 1"
  using round_to_double_of_int [of 1] by simp

lemma literal_4_5 [simp]: "round_to_double (9 / 2) = Finite (9 / 2)"
  by code_simp

lemma literal_99_99 [simp]:
  "round_to_double (9999 / 100) = Finite (7036170730324623 / 70368744177664)"
  by code_simp

lemma literal_4_567 [simp]:
  "round_to_double (4567 / 1000) = Finite (642748109318783 / 140737488355328)"
  by code_simp

lemma fixed_string_fixtures [simp]:
  "fixed_string 2 (7036170730324623 / 70368744177664) = ''99.99''"
  "fixed_string (Suc 0) (9 / 2) = ''4.5''"
  "fixed_string (Suc 0) (642748109318783 / 140737488355328) = ''4.6''"
  by code_simp+

lemma digits10_fixtures [simp]: "digits10 10 = ''10''" "digits10 50 = ''50''"
  by (simp_all add: digits10_large digit_char_def)

lemma number_in_iff: "number_in lo hi m \<longleftrightarrow> (\<exists>q. m = Val (Finite q) \<and> lo \<le> q \<and> q \<le> hi)"
  by (cases "(lo, hi, m)" rule: number_in.cases) simp_all

lemma number_at_least_iff: "number_at_least lo m \<longleftrightarrow> (\<exists>q. m = Val (Finite q) \<and> lo \<le> q)"
  by (cases "(lo, m)" rule: number_at_least.cases) simp_all

lemma integer_at_least_iff:
  "integer_at_least lo m \<longleftrightarrow> (\<exists>n. m = Val (Finite (of_int n)) \<and> lo \<le> of_int n)"
proof (cases m)
  case (Val x)
  show ?thesis
  proof (cases x)
    case (Finite q)
    have "of_int \<lfloor>q\<rfloor> = q \<longleftrightarrow> (\<exists>n. q = of_int n)" by (metis floor_of_int)
    with Val Finite show ?thesis by auto
  qed (simp_all add: Val)
qed simp_all

lemma is_integer_iff: "is_integer m \<longleftrightarrow> (\<exists>n. m = Val (Finite (of_int n)))"
proof (cases m)
  case (Val x)
  show ?thesis
  proof (cases x)
    case (Finite q)
    have "of_int \<lfloor>q\<rfloor> = q \<longleftrightarrow> (\<exists>n. q = of_int n)" by (metis floor_of_int)
    with Val Finite show ?thesis by auto
  qed (simp_all add: Val)
qed simp_all

lemma wf_product_fields:
  assumes "wf_product p"
  obtains i a r n where "pid p = Val (Finite (of_int i))"
    and "price p = Val (Finite a)" and "0 \<le> a"
    and "rating p = Val (Finite r)" and "0 \<le> r" and "r \<le> 5"
    and "stock p = Val (Finite (of_int n))" and "0 \<le> n"
  using assms
  unfolding wf_product_def number_in_iff number_at_least_iff integer_at_least_iff is_integer_iff
  by (auto simp: of_int_0_le_iff)

end
