(* ===== verification/ProductCard.thy ===== *)
theory ProductCard
  imports Product
begin

text \<open>
  The catalogue card of \<open>src/components/ProductCard/index.tsx\<close>. Each expression the
  component computes is a definition (\<open>isLowStock\<close>, \<open>productIdParam\<close>, \<open>stars\<close>,
  \<open>ratingCount\<close>, \<open>priceText\<close>, \<open>stockText\<close>, \<open>stockClass\<close>); \<open>ProductCard\<close> assembles the
  element tree and evaluates the expressions in source order, so that the first
  exception raised is the one the component propagates. The click handler of the button
  is the value \<open>AddToCart product\<close>: the closure \<open>() => addToCart(product)\<close>.

  The lemmas characterise every cell on every input and the exceptions of the component;
  the claims state what a rendered card shows.
\<close>

section \<open>The component\<close>

datatype action = AddToCart product

definition star :: string where
  "star = [CHR 0xE2, CHR 0xAD, CHR 0x90]"

definition isLowStock :: "product \<Rightarrow> bool" where
  "isLowStock p = number_less (ToNumber (stock p)) (Finite 10)"

definition productIdParam :: "product \<Rightarrow> string" where
  "productIdParam p = String_of (pid p)"

definition productLink :: "product \<Rightarrow> string \<Rightarrow> action element list \<Rightarrow> action element" where
  "productLink p k cs =
     Element ''Link''
       [(''to'', StringProp (Val ''/products/$productId'')),
        (''params'', ParamsProp [(''productId'', productIdParam p)]),
        className k]
       cs"

definition stars :: "product \<Rightarrow> string result" where
  "stars p = String_repeat star (Math_round (ToNumber (rating p)))"

definition ratingCount :: "product \<Rightarrow> string result" where
  "ratingCount p = member_call (rating p) (Number_toFixed 1)"

definition priceText :: "product \<Rightarrow> string result" where
  "priceText p = member_call (price p) (Number_toFixed 2)"

definition stockText :: "product \<Rightarrow> string" where
  "stockText p = (if isLowStock p then ''Only '' @ String_of (stock p) @ '' left!'' else ''In Stock'')"

definition stockClass :: "product \<Rightarrow> string" where
  "stockClass p = (if isLowStock p then ''lowStock'' else ''stock'')"

definition cardTree :: "product \<Rightarrow> string \<Rightarrow> string \<Rightarrow> string \<Rightarrow> action element" where
  "cardTree p s r m =
     Element ''Card'' []
       [productLink p ''cardLink''
          [Element ''div'' [className ''imageWrapper'']
             [Element ''Card.Image''
                [(''src'', StringProp (thumbnail p)), (''alt'', StringProp (title p))] []]],
        Element ''div'' [className ''content'']
          [productLink p ''titleLink'' [Element ''Card.Title'' [] [text_child (title p)]],
           Element ''div'' [className ''rating'']
             [Element ''span'' [className ''stars''] [TextNode s],
              Element ''span'' [className ''ratingCount'']
                [TextNode ''('', TextNode r, TextNode '')'']],
           Element ''div'' [className ''priceSection'']
             [Element ''Card.Price'' [] [TextNode ''$'', TextNode m]]],
        Element ''Card.Actions'' []
          [Element ''div'' [className ''actionsContent'']
             [Element ''div'' [className (stockClass p)] [TextNode (stockText p)],
              Element ''Button''
                [(''fullWidth'', FlagProp True), (''onClick'', HandlerProp (AddToCart p))]
                [TextNode ''Add to Cart'']]]]"

definition ProductCard :: "product \<Rightarrow> action element result" where
  "ProductCard p =
     bind_result (stars p) (\<lambda>s.
     bind_result (ratingCount p) (\<lambda>r.
     bind_result (priceText p) (\<lambda>m.
       Inr (cardTree p s r m))))"

lemmas card_defs =
  isLowStock_def productIdParam_def stars_def ratingCount_def priceText_def stockText_def
  stockClass_def

declare card_defs [view_defs]

section \<open>The cells, on every input\<close>

lemma isLowStock_iff:
  "isLowStock p \<longleftrightarrow>
     stock p = Val NegInfinity \<or> (\<exists>q. stock p = Val (Finite q) \<and> q < 10) \<or> stock p = Null"
  by (simp add: isLowStock_def number_less_ToNumber_iff)

lemma stars_cases:
  "stars p =
     (case rating p of
        Val (Finite q) \<Rightarrow>
          if q < - 1 / 2 then Inl RangeError else Inr (repeat_string (nat \<lfloor>q + 1 / 2\<rfloor>) star)
      | Val NaN \<Rightarrow> Inr []
      | Val PosInfinity \<Rightarrow> Inl RangeError
      | Val NegInfinity \<Rightarrow> Inl RangeError
      | Undefined \<Rightarrow> Inr []
      | Null \<Rightarrow> Inr [])"
  by (simp add: stars_def String_repeat_Math_round_Finite
      split: maybe.split number.split del: String_repeat.simps Math_round.simps)

lemma stars_ok_iff:
  "is_ok (stars p) \<longleftrightarrow>
     nullish (rating p) \<or> rating p = Val NaN \<or> (\<exists>q. rating p = Val (Finite q) \<and> - 1 / 2 \<le> q)"
  by (auto simp: stars_cases nullish_iff split: maybe.splits number.splits)

lemma ratingCount_ok_iff: "is_ok (ratingCount p) \<longleftrightarrow> \<not> nullish (rating p)"
  by (cases "rating p") (simp_all add: ratingCount_def)

lemma priceText_ok_iff: "is_ok (priceText p) \<longleftrightarrow> \<not> nullish (price p)"
  by (cases "price p") (simp_all add: priceText_def)

lemma ratingCount_Finite:
  "rating p = Val (Finite q) \<Longrightarrow> ratingCount p = Inr (fixed_string 1 q)"
  by (simp add: ratingCount_def Number_toFixed_Finite)

lemma priceText_Finite:
  "price p = Val (Finite a) \<Longrightarrow> priceText p = Inr (fixed_string 2 a)"
  by (simp add: priceText_def Number_toFixed_Finite)

lemma ProductCard_ok_iff:
  "is_ok (ProductCard p) \<longleftrightarrow> is_ok (stars p) \<and> is_ok (ratingCount p) \<and> is_ok (priceText p)"
  by (auto simp: ProductCard_def is_ok_iff)

lemma ProductCard_ok_Finite:
  assumes "rating p = Val (Finite r)" and "- 1 / 2 \<le> r" and "price p = Val (Finite a)"
  shows "is_ok (ProductCard p)"
  using assms by (simp add: ProductCard_ok_iff stars_ok_iff ratingCount_ok_iff priceText_ok_iff)

lemma ProductCard_Inr_iff:
  "ProductCard p = Inr e \<longleftrightarrow>
     (\<exists>s r m. stars p = Inr s \<and> ratingCount p = Inr r \<and> priceText p = Inr m \<and> e = cardTree p s r m)"
  by (auto simp: ProductCard_def)

lemma ProductCard_error:
  "ProductCard p = Inl e \<longleftrightarrow>
     stars p = Inl e \<or>
     (is_ok (stars p) \<and> (ratingCount p = Inl e \<or> (is_ok (ratingCount p) \<and> priceText p = Inl e)))"
  by (auto simp: ProductCard_def bind_result_Inl_iff is_ok_iff)

lemma cardTree_buttons:
  "elements_where (has_tag ''Button'') (cardTree p s r m) =
     [Element ''Button''
        [(''fullWidth'', FlagProp True), (''onClick'', HandlerProp (AddToCart p))]
        [TextNode ''Add to Cart'']]"
  by (simp add: cardTree_def productLink_def elements_where_def has_tag_def)

lemma cardTree_links:
  "map (\<lambda>l. (string_prop (props_of l) ''to'', params_prop (props_of l) ''params''))
     (elements_where (has_tag ''Link'') (cardTree p s r m))
   = [(Val ''/products/$productId'', Some [(''productId'', productIdParam p)]),
      (Val ''/products/$productId'', Some [(''productId'', productIdParam p)])]"
  by (simp add: cardTree_def productLink_def elements_where_def has_tag_def className_def)

lemma star_nonempty [simp]: "star \<noteq> []"
  by (simp add: star_def)

lemma length_star [simp]: "length star = 3"
  by (simp add: star_def)

section \<open>What a rendered card shows\<close>

text \<open>
  Claim C1. Stock indicator: for a product whose stock is a non-negative integer \<open>n\<close>, the
  card shows \<open>Only n left!\<close> when \<open>n < 10\<close> and \<open>In Stock\<close> otherwise; the threshold is strict,
  so a stock of exactly 10 is not low stock.
\<close>

theorem stock_indicator_text:
  assumes "stock p = Val (Finite (of_int n))" and "0 \<le> n"
  shows "stockText p = (if n < 10 then ''Only '' @ [digit_char n] @ '' left!'' else ''In Stock'')"
proof -
  have "isLowStock p \<longleftrightarrow> n < 10"
    using assms(1) by (simp add: isLowStock_iff)
  with assms show ?thesis
    by (simp add: stockText_def Number_toString_digit del: Number_toString.simps)
qed

theorem stock_indicator_text_witness:
  "stockText cardProduct = ''Only 5 left!'' \<and> stockText mockProduct = ''In Stock''
   \<and> stockText (mockProduct\<lparr>stock := Val (Finite 9)\<rparr>) = ''Only 9 left!''"
  using stock_indicator_text [of cardProduct 5] stock_indicator_text [of mockProduct 10]
    stock_indicator_text [of "mockProduct\<lparr>stock := Val (Finite 9)\<rparr>" 9]
  by (simp add: fixture_defs digit_char_def)

text \<open>
  Claim C13. The card shows \<open>In Stock\<close> exactly when the stock is not below 10 as a
  number: a finite stock of at least 10, \<open>+Infinity\<close>, \<open>NaN\<close>, or a missing (\<open>undefined\<close>)
  stock; every other stock value yields an \<open>Only ... left!\<close> text.
\<close>

theorem stock_in_stock_iff:
  "stockText p = ''In Stock'' \<longleftrightarrow>
     stock p = Undefined \<or> stock p = Val NaN \<or> stock p = Val PosInfinity
     \<or> (\<exists>q. stock p = Val (Finite q) \<and> 10 \<le> q)"
proof -
  have "stockText p = ''In Stock'' \<longleftrightarrow> \<not> isLowStock p"
    by (simp add: stockText_def)
  also have "\<dots> \<longleftrightarrow> stock p = Undefined \<or> stock p = Val NaN \<or> stock p = Val PosInfinity
     \<or> (\<exists>q. stock p = Val (Finite q) \<and> 10 \<le> q)"
  proof (cases "stock p")
    case (Val x)
    then show ?thesis by (cases x) (auto simp: isLowStock_iff)
  qed (simp_all add: isLowStock_iff)
  finally show ?thesis .
qed

text \<open>
  Claim C2. Price: for a finite, non-negative price below \<open>10\<^sup>2\<^sup>1\<close> the card's price is a
  decimal numeral with a non-empty integer part and exactly two fraction digits; read
  back, it is the price scaled by 100, rounded half up, and so differs from the price by at
  most half a cent.
\<close>

theorem price_two_decimals:
  assumes "price p = Val (Finite a)" and "0 \<le> a" and "a < 10 ^ 21"
  shows "\<exists>i f. priceText p = Inr (i @ ''.'' @ f) \<and> i \<noteq> [] \<and> list_all is_digit i
           \<and> list_all is_digit f \<and> length f = 2
           \<and> read_fixed (i @ ''.'' @ f) = of_int \<lfloor>a * 100 + 1 / 2\<rfloor> / 100
           \<and> \<bar>read_fixed (i @ ''.'' @ f) - a\<bar> \<le> 1 / 200"
  using fixed_string_layout [of a 2] assms by (simp add: priceText_Finite)

theorem price_two_decimals_witness:
  "price cardProduct = Val (Finite (7036170730324623 / 70368744177664))
   \<and> (0::rat) \<le> 7036170730324623 / 70368744177664
   \<and> (7036170730324623 / 70368744177664 :: rat) < 10 ^ 21
   \<and> (\<exists>i f. priceText cardProduct = Inr (i @ ''.'' @ f) \<and> i \<noteq> [] \<and> list_all is_digit i
           \<and> list_all is_digit f \<and> length f = 2
           \<and> read_fixed (i @ ''.'' @ f)
               = of_int \<lfloor>(7036170730324623 / 70368744177664 :: rat) * 100 + 1 / 2\<rfloor> / 100
           \<and> \<bar>read_fixed (i @ ''.'' @ f) - 7036170730324623 / 70368744177664\<bar> \<le> 1 / 200)"
proof -
  have 1: "price cardProduct = Val (Finite (7036170730324623 / 70368744177664))"
    by (simp add: fixture_defs)
  have 2: "(0::rat) \<le> 7036170730324623 / 70368744177664" by simp
  have 3: "(7036170730324623 / 70368744177664 :: rat) < 10 ^ 21" by simp
  from price_two_decimals [OF 1 2 3] 1 2 3 show ?thesis by blast
qed

text \<open>
  Claim C8. A product that satisfies the data-model invariant (identity, price, rating in
  \<open>[0, 5]\<close> and stock present and in range) always renders: the card raises no exception.
\<close>

theorem card_renders_wellformed:
  assumes "wf_product p"
  shows "\<exists>e. ProductCard p = Inr e"
proof -
  from assms obtain a r where "price p = Val (Finite a)" and "rating p = Val (Finite r)" and "0 \<le> r"
    by (rule wf_product_fields)
  then have "is_ok (ProductCard p)" by (intro ProductCard_ok_Finite [of p r a]) simp_all
  then show ?thesis by (simp add: is_ok_iff)
qed

theorem card_renders_wellformed_witness:
  "wf_product cardProduct \<and> (\<exists>e. ProductCard cardProduct = Inr e)"
proof -
  have "wf_product cardProduct"
    by (simp add: wf_product_def fixture_defs)
  with card_renders_wellformed [of cardProduct] show ?thesis by simp
qed

text \<open>
  Claim C3. Exceptions of the card, completely: it raises \<open>RangeError\<close> exactly when the
  rating is infinite or rounds to a negative count (a finite rating below \<open>-1/2\<close>), and
  \<open>TypeError\<close> exactly when the rating is missing, or the rating is a usable number and the
  price is missing. The star count is evaluated first, so a bad rating hides a missing
  price.
\<close>

theorem card_exceptions:
  "ProductCard p = Inl e \<longleftrightarrow>
     (e = RangeError \<and>
        (rating p = Val PosInfinity \<or> rating p = Val NegInfinity
         \<or> (\<exists>q. rating p = Val (Finite q) \<and> q < - 1 / 2)))
     \<or> (e = TypeError \<and>
        (nullish (rating p)
         \<or> (nullish (price p) \<and>
             (rating p = Val NaN \<or> (\<exists>q. rating p = Val (Finite q) \<and> - 1 / 2 \<le> q)))))"
proof -
  have s: "stars p = Inl e \<longleftrightarrow>
      e = RangeError \<and> (rating p = Val PosInfinity \<or> rating p = Val NegInfinity
         \<or> (\<exists>q. rating p = Val (Finite q) \<and> q < - 1 / 2))"
    by (auto simp: stars_cases split: maybe.splits number.splits if_splits)
  have r: "ratingCount p = Inl e \<longleftrightarrow> e = TypeError \<and> nullish (rating p)"
    by (cases "rating p") (auto simp: ratingCount_def Number_toFixed_def)
  have m: "priceText p = Inl e \<longleftrightarrow> e = TypeError \<and> nullish (price p)"
    by (cases "price p") (auto simp: priceText_def Number_toFixed_def)
  show ?thesis
    unfolding ProductCard_error s r m stars_ok_iff ratingCount_ok_iff
    by (auto simp: nullish_iff)
qed

text \<open>
  Claim C7. Stars: for a finite rating \<open>q\<close> in \<open>[0, 5]\<close> the card shows \<open>n\<close> star glyphs,
  where \<open>n\<close> is \<open>q\<close> rounded to the nearest integer with halves rounded up; \<open>n\<close> is at most 5
  and differs from \<open>q\<close> by at most one half.
\<close>

theorem stars_count:
  assumes "rating p = Val (Finite q)" and "0 \<le> q" and "q \<le> 5"
  shows "\<exists>n. stars p = Inr (repeat_string n star) \<and> n \<le> 5 \<and> int n = \<lfloor>q + 1 / 2\<rfloor>
           \<and> \<bar>of_nat n - q\<bar> \<le> 1 / 2"
proof -
  let ?k = "\<lfloor>q + 1 / 2\<rfloor>"
  from assms(2) have k0: "0 \<le> ?k" by simp
  from assms(3) have k5: "?k \<le> 5" by (simp add: floor_le_iff)
  have e: "\<bar>of_int ?k - q\<bar> \<le> 1 / 2" by (rule round_error_le_half)
  from assms(1,2) have "stars p = Inr (repeat_string (nat ?k) star)"
    by (simp add: stars_cases)
  moreover from k0 k5 have "nat ?k \<le> 5" by linarith
  moreover from k0 have "int (nat ?k) = ?k" by simp
  moreover from k0 e have "\<bar>of_nat (nat ?k) - q\<bar> \<le> 1 / 2" by simp
  ultimately show ?thesis by blast
qed

theorem stars_count_witness:
  "rating cardProduct = Val (Finite (9 / 2)) \<and> (0::rat) \<le> 9 / 2 \<and> (9 / 2 :: rat) \<le> 5
   \<and> (\<exists>n. stars cardProduct = Inr (repeat_string n star) \<and> n \<le> 5
          \<and> int n = \<lfloor>(9 / 2 :: rat) + 1 / 2\<rfloor> \<and> \<bar>of_nat n - (9 / 2 :: rat)\<bar> \<le> 1 / 2)"
proof -
  have 1: "rating cardProduct = Val (Finite (9 / 2))" by (simp add: fixture_defs)
  have 2: "(0::rat) \<le> 9 / 2" and 3: "(9 / 2 :: rat) \<le> 5" by simp_all
  from stars_count [OF 1 2 3] 1 2 3 show ?thesis by blast
qed

text \<open>
  Claim C10. Rating in brackets: for a finite, non-negative rating below \<open>10\<^sup>2\<^sup>1\<close> the card
  shows the rating with exactly one fraction digit, equal to the rating scaled by 10 and
  rounded half up, within \<open>0.05\<close> of the rating.
\<close>

theorem rating_one_decimal:
  assumes "rating p = Val (Finite q)" and "0 \<le> q" and "q < 10 ^ 21"
  shows "\<exists>i f. ratingCount p = Inr (i @ ''.'' @ f) \<and> i \<noteq> [] \<and> list_all is_digit i
           \<and> list_all is_digit f \<and> length f = 1
           \<and> read_fixed (i @ ''.'' @ f) = of_int \<lfloor>q * 10 + 1 / 2\<rfloor> / 10
           \<and> \<bar>read_fixed (i @ ''.'' @ f) - q\<bar> \<le> 1 / 20"
  using fixed_string_layout [of q 1] assms by (simp add: ratingCount_Finite)

theorem rating_one_decimal_witness:
  "rating cardProduct = Val (Finite (9 / 2)) \<and> (0::rat) \<le> 9 / 2 \<and> (9 / 2 :: rat) < 10 ^ 21
   \<and> (\<exists>i f. ratingCount cardProduct = Inr (i @ ''.'' @ f) \<and> i \<noteq> [] \<and> list_all is_digit i
           \<and> list_all is_digit f \<and> length f = 1
           \<and> read_fixed (i @ ''.'' @ f) = of_int \<lfloor>(9 / 2 :: rat) * 10 + 1 / 2\<rfloor> / 10
           \<and> \<bar>read_fixed (i @ ''.'' @ f) - 9 / 2\<bar> \<le> 1 / 20)"
proof -
  have 1: "rating cardProduct = Val (Finite (9 / 2))" by (simp add: fixture_defs)
  have 2: "(0::rat) \<le> 9 / 2" and 3: "(9 / 2 :: rat) < 10 ^ 21" by simp_all
  from rating_one_decimal [OF 1 2 3] 1 2 3 show ?thesis by blast
qed

text \<open>
  Claim C12. The rendered card has exactly one \<open>Button\<close>; its click handler adds the very
  product the card shows, and its text is \<open>Add to Cart\<close>.
\<close>

theorem card_button_adds_product:
  assumes "ProductCard p = Inr e"
  shows "map (\<lambda>b. (handler_prop (props_of b) ''onClick'', element_text b))
           (elements_where (has_tag ''Button'') e) = [(Some (AddToCart p), ''Add to Cart'')]"
proof -
  from assms obtain s r m where "e = cardTree p s r m"
    unfolding ProductCard_Inr_iff by blast
  then show ?thesis by (simp add: cardTree_buttons element_text_def)
qed

theorem card_button_adds_product_witness:
  "\<exists>e. ProductCard cardProduct = Inr e \<and>
     map (\<lambda>b. (handler_prop (props_of b) ''onClick'', element_text b))
       (elements_where (has_tag ''Button'') e) = [(Some (AddToCart cardProduct), ''Add to Cart'')]"
proof -
  have "is_ok (ProductCard cardProduct)"
    by (rule ProductCard_ok_Finite [of _ "9 / 2" "7036170730324623 / 70368744177664"])
      (simp_all add: fixture_defs)
  then obtain e where e: "ProductCard cardProduct = Inr e" by (auto simp: is_ok_iff)
  show ?thesis
    by (rule exI [of _ e]) (rule conjI [OF e card_button_adds_product [OF e]])
qed

text \<open>
  Claim C23. The links of the card: a rendered card has exactly two \<open>Link\<close>s (around the
  image and around the title), both to the route \<open>/products/$productId\<close> with the parameter
  \<open>productId = String(product.id)\<close>. For an integer identity \<open>i\<close> with \<open>0 \<le> i < 10\<^sup>1\<^sup>5\<close> the
  parameter is the decimal numeral of \<open>i\<close>, which reads back as \<open>i\<close>: the route identifies
  the product.
\<close>

theorem link_param_roundtrip:
  assumes "ProductCard p = Inr e" and "pid p = Val (Finite (of_int i))" and "0 \<le> i" and "i < 10 ^ 15"
  shows "map (\<lambda>l. (string_prop (props_of l) ''to'', params_prop (props_of l) ''params''))
           (elements_where (has_tag ''Link'') e)
           = [(Val ''/products/$productId'', Some [(''productId'', digits10 i)]),
              (Val ''/products/$productId'', Some [(''productId'', digits10 i)])]
       \<and> productIdParam p = digits10 i
       \<and> read_digits 0 (productIdParam p) = i"
proof -
  from assms(1) obtain s r m where e: "e = cardTree p s r m"
    unfolding ProductCard_Inr_iff by blast
  from assms(2-4) have "productIdParam p = digits10 i"
    by (simp add: productIdParam_def Number_toString_of_int del: Number_toString.simps)
  with assms(3) show ?thesis by (simp add: e cardTree_links)
qed

theorem link_param_roundtrip_witness:
  "\<exists>e. ProductCard cardProduct = Inr e \<and> pid cardProduct = Val (Finite (of_int 1))
     \<and> (0::int) \<le> 1 \<and> (1::int) < 10 ^ 15
     \<and> map (\<lambda>l. (string_prop (props_of l) ''to'', params_prop (props_of l) ''params''))
           (elements_where (has_tag ''Link'') e)
           = [(Val ''/products/$productId'', Some [(''productId'', digits10 1)]),
              (Val ''/products/$productId'', Some [(''productId'', digits10 1)])]
     \<and> productIdParam cardProduct = digits10 1
     \<and> read_digits 0 (productIdParam cardProduct) = 1"
proof -
  have "is_ok (ProductCard cardProduct)"
    by (rule ProductCard_ok_Finite [of _ "9 / 2" "7036170730324623 / 70368744177664"])
      (simp_all add: fixture_defs)
  then obtain e where e: "ProductCard cardProduct = Inr e" by (auto simp: is_ok_iff)
  have i: "pid cardProduct = Val (Finite (of_int 1))" by (simp add: fixture_defs)
  have b: "(0::int) \<le> 1" "(1::int) < 10 ^ 15" by simp_all
  show ?thesis
    by (rule exI [of _ e]) (intro conjI e i b link_param_roundtrip [OF e i b, THEN conjunct1]
        link_param_roundtrip [OF e i b, THEN conjunct2, THEN conjunct1]
        link_param_roundtrip [OF e i b, THEN conjunct2, THEN conjunct2])
qed


end
