(* ===== verification/ProductMeta.thy ===== *)
theory ProductMeta
  imports ProductCard
begin

text \<open>
  The metadata panel of \<open>src/components/ProductMeta/index.tsx\<close>: four labelled cells
  (brand, category, stock, rating) computed from the accessor's \<open>data\<close> by optional chains.
  \<open>brandText\<close>, \<open>categoryText\<close>, \<open>stockValue\<close> and \<open>ratingText\<close> are the cell expressions,
  \<open>metaItem\<close> one labelled row, \<open>metaTree\<close> the JSX and \<open>ProductMeta\<close> the component. The only call that could
  raise is \<open>toFixed(1)\<close>, which is reached only on a number and with a digit count in range.
\<close>

section \<open>The component\<close>

fun optional_call :: "'a maybe \<Rightarrow> ('a \<Rightarrow> 'b result) \<Rightarrow> 'b maybe result" where
  "optional_call (Val x) f = bind_result (f x) (\<lambda>y. Inr (Val y))"
| "optional_call Undefined f = Inr Undefined"
| "optional_call Null f = Inr Undefined"

definition brandText :: "product maybe \<Rightarrow> string maybe" where
  "brandText d = string_or (optional_chain d brand) (Val ''N/A'')"

definition categoryText :: "product maybe \<Rightarrow> string maybe" where
  "categoryText d = optional_chain d category"

definition stockValue :: "product maybe \<Rightarrow> number maybe" where
  "stockValue d = optional_chain d stock"

definition ratingText :: "product maybe \<Rightarrow> string maybe result" where
  "ratingText d = optional_call (optional_chain d rating) (Number_toFixed 1)"

definition metaItem :: "string \<Rightarrow> 'h element list \<Rightarrow> 'h element" where
  "metaItem label cs =
     Element ''div'' [className ''metaItem'']
       [Element ''span'' [className ''metaLabel''] [TextNode label],
        Element ''span'' [className ''metaValue''] cs]"

definition metaTree :: "product maybe \<Rightarrow> string maybe \<Rightarrow> 'h element" where
  "metaTree d r =
     Element ''div'' [className ''meta'']
       [metaItem ''Brand'' [text_child (brandText d)],
        metaItem ''Category'' [text_child (categoryText d)],
        metaItem ''Stock'' [number_child (stockValue d)],
        metaItem ''Rating'' [TextNode (star @ '' ''), text_child r]]"

definition ProductMeta :: "accessor \<Rightarrow> 'h element result" where
  "ProductMeta a = bind_result (ratingText (data a)) (\<lambda>r. Inr (metaTree (data a) r))"

lemmas meta_defs = brandText_def categoryText_def stockValue_def ratingText_def

declare meta_defs [view_defs]

section \<open>The cells, on every input\<close>

lemma optional_call_ok:
  "(\<And>x. m = Val x \<Longrightarrow> is_ok (f x)) \<Longrightarrow> is_ok (optional_call m f)"
  by (cases m) (auto simp: is_ok_iff)

lemma brandText_nullish [simp]: "nullish d \<Longrightarrow> brandText d = Val ''N/A''"
  by (simp add: brandText_def)

lemma brandText_Val:
  "brandText (Val p) = (if truthy_string (brand p) then brand p else Val ''N/A'')"
  by (simp add: brandText_def string_or_def)

lemma brandText_truthy [simp]: "truthy_string (brandText d)"
  by (cases d) (simp_all add: brandText_Val)

lemma ratingText_nullish [simp]: "nullish d \<Longrightarrow> ratingText d = Inr Undefined"
  by (simp add: ratingText_def)

lemma ratingText_Val:
  "ratingText (Val p) =
     (case rating p of
        Val (Finite q) \<Rightarrow> Inr (Val (fixed_string 1 q))
      | Val x \<Rightarrow> Inr (Val (Number_toString x))
      | _ \<Rightarrow> Inr Undefined)"
  by (simp add: ratingText_def Number_toFixed_def split: maybe.split number.split)

lemma ratingText_ok [simp]: "is_ok (ratingText d)"
  unfolding ratingText_def by (rule optional_call_ok) simp

lemma ProductMeta_ok [simp]: "is_ok (ProductMeta a)"
  using ratingText_ok [of "data a"] by (auto simp: ProductMeta_def is_ok_iff)

lemma ratingText_Finite:
  "rating p = Val (Finite q) \<Longrightarrow> ratingText (Val p) = Inr (Val (fixed_string 1 q))"
  by (simp add: ratingText_Val)

lemma ProductMeta_Inr_iff:
  "ProductMeta a = Inr e \<longleftrightarrow> (\<exists>r. ratingText (data a) = Inr r \<and> e = metaTree (data a) r)"
  by (auto simp: ProductMeta_def)

lemma metaTree_labels:
  "map element_text (elements_where (has_class ''metaLabel'') (metaTree d r))
     = [''Brand'', ''Category'', ''Stock'', ''Rating'']"
  by (simp add: metaTree_def metaItem_def elements_where_def element_text_def has_class_def
      className_def)

lemma metaTree_values:
  "map element_text (elements_where (has_class ''metaValue'') (metaTree d r))
     = [shown (brandText d), shown (categoryText d),
        (case stockValue d of Val x \<Rightarrow> Number_toString x | _ \<Rightarrow> []),
        star @ '' '' @ shown r]"
  by (simp add: metaTree_def metaItem_def elements_where_def element_text_def has_class_def
      className_def)

section \<open>What the panel shows\<close>

text \<open>
  Claim C6. The metadata panel never raises: for every accessor value (loading, failed,
  idle, or loaded with any product, whichever fields are absent) it returns an element
  tree.
\<close>

theorem meta_never_raises: "\<exists>e. ProductMeta a = Inr e"
  using ProductMeta_ok [of a] by (simp add: is_ok_iff)

text \<open>
  Claim C5. The brand cell, on every input: the brand of the product when there is a
  product and its brand is a non-empty string, and the literal \<open>N/A\<close> in every other case
  (no product, brand absent, brand the empty string).
\<close>

theorem brand_fallback:
  "brandText d =
     Val (case d of
            Val p \<Rightarrow> (case brand p of Val s \<Rightarrow> if s = [] then ''N/A'' else s | _ \<Rightarrow> ''N/A'')
          | _ \<Rightarrow> ''N/A'')"
  by (simp add: brandText_def string_or_def split: maybe.split)

text \<open>
  Claim C9. The rows of the panel: whatever the accessor holds, the panel has the four
  labels Brand, Category, Stock and Rating in this order, and each value cell is computed
  from its own field alone, so an absent field empties its own cell and no other.
\<close>

theorem meta_cells:
  assumes "ProductMeta a = Inr e"
  shows "map element_text (elements_where (has_class ''metaLabel'') e)
           = [''Brand'', ''Category'', ''Stock'', ''Rating'']
       \<and> map element_text (elements_where (has_class ''metaValue'') e)
           = [shown (brandText (data a)),
              shown (optional_chain (data a) category),
              (case optional_chain (data a) stock of Val x \<Rightarrow> Number_toString x | _ \<Rightarrow> []),
              star @ '' '' @
                (case optional_chain (data a) rating of
                   Val (Finite q) \<Rightarrow> fixed_string 1 q
                 | Val x \<Rightarrow> Number_toString x
                 | _ \<Rightarrow> [])]"
proof -
  from assms obtain r where r: "ratingText (data a) = Inr r" and e: "e = metaTree (data a) r"
    unfolding ProductMeta_Inr_iff by blast
  have "shown r = (case optional_chain (data a) rating of
           Val (Finite q) \<Rightarrow> fixed_string 1 q | Val x \<Rightarrow> Number_toString x | _ \<Rightarrow> [])"
    using r by (cases "data a") (auto simp: ratingText_Val split: maybe.splits number.splits)
  then show ?thesis
    by (simp add: e metaTree_labels metaTree_values view_defs)
qed

theorem meta_cells_witness:
  "\<exists>e :: unit element. ProductMeta (loaded partialMetaProduct) = Inr e
       \<and> map element_text (elements_where (has_class ''metaLabel'') e)
           = [''Brand'', ''Category'', ''Stock'', ''Rating'']
       \<and> map element_text (elements_where (has_class ''metaValue'') e)
           = [''N/A'', ''Test Category'', ''5'', star @ '' '']"
proof -
  obtain e :: "unit element" where e: "ProductMeta (loaded partialMetaProduct) = Inr e"
    using ProductMeta_ok [of "loaded partialMetaProduct"] by (auto simp: is_ok_iff)
  have "Number_toString (Finite 5) = ''5''"
    using Number_toString_digit [of 5] by (simp add: digit_char_def)
  with meta_cells [OF e] have
    "map element_text (elements_where (has_class ''metaLabel'') e)
       = [''Brand'', ''Category'', ''Stock'', ''Rating'']
     \<and> map element_text (elements_where (has_class ''metaValue'') e)
       = [''N/A'', ''Test Category'', ''5'', star @ '' '']"
    by (simp add: loaded_def fixture_defs brandText_Val)
  with e show ?thesis
    by (intro exI [of _ e]) (rule conjI)
qed

text \<open>
  Claim C11. The rating cell: for a product with a finite, non-negative rating below
  \<open>10\<^sup>2\<^sup>1\<close> the cell holds the rating with exactly one fraction digit, equal to the rating
  scaled by 10 and rounded half up, within \<open>0.05\<close> of the rating.
\<close>

theorem meta_rating_one_decimal:
  assumes "data a = Val p" and "rating p = Val (Finite q)" and "0 \<le> q" and "q < 10 ^ 21"
  shows "\<exists>i f. ratingText (data a) = Inr (Val (i @ ''.'' @ f)) \<and> i \<noteq> [] \<and> list_all is_digit i
           \<and> list_all is_digit f \<and> length f = 1
           \<and> read_fixed (i @ ''.'' @ f) = of_int \<lfloor>q * 10 + 1 / 2\<rfloor> / 10
           \<and> \<bar>read_fixed (i @ ''.'' @ f) - q\<bar> \<le> 1 / 20"
  using fixed_string_layout [of q 1] assms by (simp add: ratingText_Finite)

theorem meta_rating_one_decimal_witness:
  "data (loaded mockProduct) = Val mockProduct \<and> rating mockProduct = Val (Finite (9 / 2))
   \<and> (0::rat) \<le> 9 / 2 \<and> (9 / 2 :: rat) < 10 ^ 21
   \<and> (\<exists>i f. ratingText (data (loaded mockProduct)) = Inr (Val (i @ ''.'' @ f)) \<and> i \<noteq> []
         \<and> list_all is_digit i \<and> list_all is_digit f \<and> length f = 1
         \<and> read_fixed (i @ ''.'' @ f) = of_int \<lfloor>(9 / 2 :: rat) * 10 + 1 / 2\<rfloor> / 10
         \<and> \<bar>read_fixed (i @ ''.'' @ f) - 9 / 2\<bar> \<le> 1 / 20)"
proof -
  have 1: "data (loaded mockProduct) = Val mockProduct" by (simp add: loaded_def)
  have 2: "rating mockProduct = Val (Finite (9 / 2))" by (simp add: fixture_defs)
  have 3: "(0::rat) \<le> 9 / 2" and 4: "(9 / 2 :: rat) < 10 ^ 21" by simp_all
  from meta_rating_one_decimal [OF 1 2 3 4] 1 2 3 4 show ?thesis by blast
qed

text \<open>
  Claim C24. The stock cell: for a product whose stock is an integer \<open>n\<close> with
  \<open>0 \<le> n < 10\<^sup>1\<^sup>5\<close> the third value cell of the panel is the decimal numeral of \<open>n\<close>.
\<close>

theorem stock_cell_digits:
  assumes "data a = Val p" and "stock p = Val (Finite (of_int n))" and "0 \<le> n" and "n < 10 ^ 15"
  shows "\<exists>e :: unit element. ProductMeta a = Inr e
           \<and> map element_text (elements_where (has_class ''metaValue'') e) ! 2 = digits10 n"
proof -
  obtain r where "ProductMeta a = Inr (metaTree (data a) r :: unit element)"
    using ratingText_ok [of "data a"] by (auto simp: ProductMeta_def is_ok_iff)
  moreover from assms have "stockValue (data a) = Val (Finite (of_int n))"
    and "Number_toString (Finite (of_int n)) = digits10 n"
    by (simp_all add: stockValue_def Number_toString_of_int del: Number_toString.simps)
  ultimately show ?thesis by (simp add: metaTree_values del: Number_toString.simps)
qed

theorem stock_cell_digits_witness:
  "data (loaded mockProduct) = Val mockProduct \<and> stock mockProduct = Val (Finite (of_int 10))
   \<and> (0::int) \<le> 10 \<and> (10::int) < 10 ^ 15
   \<and> (\<exists>e :: unit element. ProductMeta (loaded mockProduct) = Inr e
           \<and> map element_text (elements_where (has_class ''metaValue'') e) ! 2 = ''10'')"
proof -
  have 1: "data (loaded mockProduct) = Val mockProduct" by (simp add: loaded_def)
  have 2: "stock mockProduct = Val (Finite (of_int 10))" by (simp add: fixture_defs)
  have 3: "(0::int) \<le> 10" and 4: "(10::int) < 10 ^ 15" by simp_all
  from stock_cell_digits [OF 1 2 3 4] 1 2 show ?thesis by simp
qed


end
