(* ===== verification/ProductImage.thy ===== *)
theory ProductImage
  imports Product
begin

text \<open>
  The image panel of \<open>src/components/ProductImage/index.tsx\<close>: it reads the accessor's
  \<open>data\<close> and renders one \<open>img\<close> whose source is the first image, or the thumbnail when
  there is no usable first image. \<open>imageSrc\<close> and \<open>imageAlt\<close> are the two attribute
  expressions, \<open>ProductImage\<close> the element tree. No expression of the component can raise:
  every property access is an optional chain.
\<close>

section \<open>The component\<close>

definition imageSrc :: "product maybe \<Rightarrow> string maybe" where
  "imageSrc d =
     string_or (first_elem (optional_chain d images)) (optional_chain d thumbnail)"

definition imageAlt :: "product maybe \<Rightarrow> string maybe" where
  "imageAlt d = optional_chain d title"

definition ProductImage :: "accessor \<Rightarrow> 'h element" where
  "ProductImage a =
     Element ''div'' [className ''imageSection'']
       [Element ''img''
          [(''src'', StringProp (imageSrc (data a))),
           (''alt'', StringProp (imageAlt (data a))),
           className ''image'']
          []]"

declare imageSrc_def [view_defs] imageAlt_def [view_defs]

section \<open>The source attribute, on every input\<close>

lemma imageSrc_nullish [simp]: "nullish d \<Longrightarrow> imageSrc d = Undefined"
  by (simp add: imageSrc_def)

lemma imageSrc_Val:
  "imageSrc (Val p) =
     (if truthy_string (first_elem (images p)) then first_elem (images p) else thumbnail p)"
  by (simp add: imageSrc_def string_or_def)

lemma img_of_ProductImage:
  "elements_where (has_tag ''img'') (ProductImage a) =
     [Element ''img''
        [(''src'', StringProp (imageSrc (data a))),
         (''alt'', StringProp (imageAlt (data a))),
         className ''image''] []]"
  by (simp add: ProductImage_def elements_where_def has_tag_def)

section \<open>What the panel shows\<close>

text \<open>
  Claim C4. The image source, on every input: with no product there is no source; with a
  product it is the first image when the list has one and it is not the empty string, and
  the thumbnail (possibly absent) in every other case.
\<close>

theorem image_src_choice:
  "imageSrc d =
     (case d of
        Val p \<Rightarrow>
          (case images p of
             Val (x # xs) \<Rightarrow> if x = [] then thumbnail p else Val x
           | _ \<Rightarrow> thumbnail p)
      | _ \<Rightarrow> Undefined)"
  by (simp add: imageSrc_def string_or_def split: maybe.split list.split)

text \<open>
  Claim C14. What the panel renders, on every input: a \<open>div\<close> of class \<open>imageSection\<close> that
  contains exactly one \<open>img\<close> of class \<open>image\<close>. Its alternative text is the title of the
  product (absent when there is no product or no title); its source is the first image
  when the product has one that is not the empty string, the thumbnail otherwise, and
  absent when there is no product. The panel raises no exception.
\<close>

theorem image_single_img:
  "tag_of (ProductImage a) = Val ''div''
   \<and> string_prop (props_of (ProductImage a)) ''className'' = Val ''imageSection''
   \<and> map (\<lambda>i. (string_prop (props_of i) ''alt'', string_prop (props_of i) ''src'',
                 string_prop (props_of i) ''className'', children_of i))
       (elements_where (has_tag ''img'') (ProductImage a))
     = [(case data a of Val p \<Rightarrow> title p | _ \<Rightarrow> Undefined,
         case data a of
           Val p \<Rightarrow>
             (case images p of
                Val (x # xs) \<Rightarrow> if x = [] then thumbnail p else Val x
              | _ \<Rightarrow> thumbnail p)
         | _ \<Rightarrow> Undefined,
         Val ''image'', [])]"
  by (simp add: img_of_ProductImage, simp add: ProductImage_def view_defs
      string_or_def className_def split: maybe.split list.split)

end
