(* ===== verification/ProductStore.thy ===== *)
theory ProductStore
  imports Product
begin

text \<open>
  The product-fetch store behind \<open>useProduct()\<close>. The hook itself (\<open>hooks/useProduct\<close>) is
  not among the sources, so the store is modelled from the specification (sections 3, 4.1
  and 5): a \<open>FetchState\<close> for the current product identity, and the requests in flight.
  The accessor object the views consume is the record \<open>accessor\<close> of theory \<open>Product\<close>,
  whose four shapes are those the test files mock; \<open>useProduct\<close> projects a store onto it.

  The store is a state machine over four events: \<open>Get i\<close> (a view asks for identity \<open>i\<close>;
  a new identity starts a new fetch cycle), \<open>Resolved i p\<close> and \<open>Rejected i c\<close> (the
  response of a request for \<open>i\<close> arrives), and \<open>Retry\<close> (the caller starts a new cycle after
  an error). \<open>step\<close> is the transition function, \<open>enabled\<close> says which events can occur (a
  response needs a request in flight), \<open>reachable\<close> is the set of stores a run can produce
  from \<open>mount\<close>, and \<open>run\<close> applies a sequence of events.
\<close>

section \<open>States and events\<close>

type_synonym product_id = string

datatype 'a FetchState = Loading | Error string | Ready 'a

record store =
  key :: product_id
  fetch :: "product FetchState"
  pending :: "product_id list"

datatype event =
    Get product_id
  | Resolved product_id product
  | Rejected product_id string
  | Retry

definition mount :: "product_id \<Rightarrow> store" where
  "mount i = \<lparr>key = i, fetch = Loading, pending = [i]\<rparr>"

definition settle :: "product_id \<Rightarrow> product FetchState \<Rightarrow> store \<Rightarrow> store" where
  "settle i r s =
     (if i \<in> set (pending s)
      then (if i = key s \<and> fetch s = Loading
            then s\<lparr>fetch := r, pending := remove1 i (pending s)\<rparr>
            else s\<lparr>pending := remove1 i (pending s)\<rparr>)
      else s)"

fun step :: "store \<Rightarrow> event \<Rightarrow> store" where
  "step s (Get i) =
     (if i = key s then s else \<lparr>key = i, fetch = Loading, pending = pending s @ [i]\<rparr>)"
| "step s (Resolved i p) = settle i (Ready p) s"
| "step s (Rejected i c) = settle i (Error c) s"
| "step s Retry =
     (case fetch s of
        Error c \<Rightarrow> s\<lparr>fetch := Loading, pending := pending s @ [key s]\<rparr>
      | _ \<Rightarrow> s)"

fun enabled :: "store \<Rightarrow> event \<Rightarrow> bool" where
  "enabled s (Get i) = True"
| "enabled s (Resolved i p) = (i \<in> set (pending s))"
| "enabled s (Rejected i c) = (i \<in> set (pending s))"
| "enabled s Retry = True"

definition run :: "store \<Rightarrow> event list \<Rightarrow> store" where
  "run = foldl step"

fun admissible :: "store \<Rightarrow> event list \<Rightarrow> bool" where
  "admissible s [] = True"
| "admissible s (e # es) = (enabled s e \<and> admissible (step s e) es)"

inductive reachable :: "store \<Rightarrow> bool" where
  mounted: "reachable (mount i)"
| stepped: "reachable s \<Longrightarrow> enabled s e \<Longrightarrow> reachable (step s e)"

fun event_id :: "event \<Rightarrow> product_id option" where
  "event_id (Get i) = Some i"
| "event_id (Resolved i p) = Some i"
| "event_id (Rejected i c) = Some i"
| "event_id Retry = None"

fun is_response :: "event \<Rightarrow> bool" where
  "is_response (Resolved i p) = True"
| "is_response (Rejected i c) = True"
| "is_response e = False"

definition stale :: "store \<Rightarrow> event \<Rightarrow> bool" where
  "stale s e \<longleftrightarrow> is_response e \<and> event_id e \<noteq> Some (key s)"

section \<open>The accessor\<close>

fun accessor_of :: "product FetchState \<Rightarrow> accessor" where
  "accessor_of Loading = loading"
| "accessor_of (Error c) = failed c"
| "accessor_of (Ready p) = loaded p"

definition useProduct :: "store \<Rightarrow> accessor" where
  "useProduct s = accessor_of (fetch s)"


definition wf_store :: "store \<Rightarrow> bool" where
  "wf_store s \<longleftrightarrow> (fetch s \<noteq> Loading \<or> key s \<in> set (pending s))"

section \<open>Lemmas: one step\<close>

lemma key_settle [simp]: "key (settle i r s) = key s"
  by (simp add: settle_def)

lemma settle_stale [simp]: "i \<noteq> key s \<Longrightarrow> fetch (settle i r s) = fetch s"
  by (simp add: settle_def)

lemma settle_current:
  "fetch (settle (key s) r s) = (if fetch s = Loading \<and> key s \<in> set (pending s) then r else fetch s)"
  by (simp add: settle_def)

lemma set_remove1_other: "x \<noteq> y \<Longrightarrow> x \<in> set (remove1 y xs) \<longleftrightarrow> x \<in> set xs"
  by (induction xs) auto

lemma wf_store_mount [simp]: "wf_store (mount i)"
  by (simp add: wf_store_def mount_def)

lemma wf_store_settle: "wf_store s \<Longrightarrow> r \<noteq> Loading \<Longrightarrow> wf_store (settle i r s)"
  by (auto simp: wf_store_def settle_def set_remove1_other)

lemma wf_store_step: "wf_store s \<Longrightarrow> wf_store (step s e)"
proof (cases e)
  case Retry
  assume "wf_store s"
  with Retry show ?thesis by (auto simp: wf_store_def split: FetchState.split)
qed (auto simp: wf_store_settle, simp add: wf_store_def)

lemma step_stale [simp]: "stale s e \<Longrightarrow> key (step s e) = key s \<and> fetch (step s e) = fetch s"
  by (cases e) (simp_all add: stale_def)

lemma stale_step_iff: "stale s e \<Longrightarrow> stale (step s e) e' \<longleftrightarrow> stale s e'"
  by (simp add: stale_def)

section \<open>Lemmas: runs\<close>

lemma run_Nil [simp]: "run s [] = s"
  by (simp add: run_def)

lemma run_Cons [simp]: "run s (e # es) = run (step s e) es"
  by (simp add: run_def)

lemma run_append [simp]: "run s (es @ fs) = run (run s es) fs"
  by (simp add: run_def)

lemma run_stale:
  "list_all (stale s) es \<Longrightarrow> key (run s es) = key s \<and> fetch (run s es) = fetch s"
proof (induction es arbitrary: s)
  case (Cons e es)
  from Cons.prems have e: "stale s e" and "list_all (stale s) es" by simp_all
  then have "list_all (stale (step s e)) es" by (simp add: stale_step_iff list_all_iff)
  with Cons.IH [of "step s e"] e show ?case by simp
qed simp

lemma reachable_wf_store: "reachable s \<Longrightarrow> wf_store s"
  by (induction rule: reachable.induct) (simp_all add: wf_store_step)

section \<open>Runs that respect enabledness\<close>

lemma admissible_append [simp]:
  "admissible s (es @ fs) \<longleftrightarrow> admissible s es \<and> admissible (run s es) fs"
  by (induction es arbitrary: s) simp_all

lemma reachable_run: "reachable s \<Longrightarrow> admissible s es \<Longrightarrow> reachable (run s es)"
  by (induction es arbitrary: s) (simp_all add: reachable.stepped)

lemma reachable_iff_run:
  "reachable s \<longleftrightarrow> (\<exists>i es. admissible (mount i) es \<and> s = run (mount i) es)"
proof
  assume "reachable s"
  then show "\<exists>i es. admissible (mount i) es \<and> s = run (mount i) es"
  proof (induction rule: reachable.induct)
    case (mounted i)
    have "admissible (mount i) [] \<and> mount i = run (mount i) []" by simp
    then show ?case by blast
  next
    case (stepped s e)
    then obtain i es where "admissible (mount i) es" and "s = run (mount i) es" by blast
    with stepped.hyps(2) have "admissible (mount i) (es @ [e]) \<and> step s e = run (mount i) (es @ [e])"
      by simp
    then show ?case by blast
  qed
next
  assume "\<exists>i es. admissible (mount i) es \<and> s = run (mount i) es"
  then show "reachable s" by (auto intro: reachable_run reachable.mounted)
qed

section \<open>What the store guarantees\<close>


text \<open>
  Claim C19. Stale responses are discarded: responses for identities other than the current
  one, in any number and order, change neither the current identity nor what the accessor
  exposes. In particular, after asking for A and then for B, A's response leaves the store
  in B's cycle.
\<close>

theorem stale_responses_discarded:
  assumes "list_all (stale s) es"
  shows "key (run s es) = key s \<and> useProduct (run s es) = useProduct s"
  using run_stale [OF assms] by (simp add: useProduct_def)

theorem stale_responses_discarded_witness:
  "list_all (stale (run (mount ''A'') [Get ''B''])) [Resolved ''A'' mockProduct, Rejected ''A'' ''late'']
   \<and> key (run (mount ''A'') [Get ''B'', Resolved ''A'' mockProduct, Rejected ''A'' ''late'']) = ''B''
   \<and> useProduct (run (mount ''A'') [Get ''B'', Resolved ''A'' mockProduct, Rejected ''A'' ''late''])
       = loading"
  using stale_responses_discarded
    [of "run (mount ''A'') [Get ''B'']" "[Resolved ''A'' mockProduct, Rejected ''A'' ''late'']"]
  by (simp add: stale_def mount_def useProduct_def)

text \<open>
  Claim C21. Transitions of the fetch state: one event either leaves it unchanged, or
  settles a \<open>Loading\<close> state of the current identity to \<open>Ready\<close> (a resolved response) or to
  \<open>Error\<close> (a rejected one), or starts a new cycle in \<open>Loading\<close> (a new identity, or a retry
  after an error). So \<open>Error\<close> and \<open>Ready\<close> are left only through a new cycle.
\<close>

theorem fetch_transitions:
  "fetch (step s e) = fetch s
   \<or> (fetch s = Loading \<and> key (step s e) = key s \<and>
        ((\<exists>p. e = Resolved (key s) p \<and> fetch (step s e) = Ready p)
         \<or> (\<exists>c. e = Rejected (key s) c \<and> fetch (step s e) = Error c)))
   \<or> (fetch (step s e) = Loading \<and>
        ((\<exists>i. e = Get i \<and> i \<noteq> key s) \<or> (e = Retry \<and> (\<exists>c. fetch s = Error c))))"
  by (cases e) (auto simp: settle_def split: FetchState.splits)

text \<open>
  Claim C22. A loading store can always settle: in every reachable state that is \<open>Loading\<close>
  a request for the current identity is in flight, and its response moves the accessor to
  the data (when it resolves) or to the error with its cause (when it is rejected).
\<close>

theorem loading_settles:
  assumes "reachable s" and "fetch s = Loading"
  shows "enabled s (Resolved (key s) p) \<and> useProduct (step s (Resolved (key s) p)) = loaded p
       \<and> enabled s (Rejected (key s) c) \<and> useProduct (step s (Rejected (key s) c)) = failed c"
proof -
  from assms have "key s \<in> set (pending s)"
    using reachable_wf_store [of s] by (simp add: wf_store_def)
  with assms(2) show ?thesis by (simp add: useProduct_def settle_current)
qed

theorem loading_settles_witness:
  "reachable (run (mount ''1'') [Get ''2'']) \<and> fetch (run (mount ''1'') [Get ''2'']) = Loading
   \<and> useProduct (step (run (mount ''1'') [Get ''2'']) (Resolved ''2'' mockProduct)) = loaded mockProduct
   \<and> useProduct (step (run (mount ''1'') [Get ''2'']) (Rejected ''2'' ''Failed to load'')) = failed ''Failed to load''"
proof -
  have r: "reachable (run (mount ''1'') [Get ''2''])"
    by (rule reachable_run [OF reachable.mounted]) simp
  have l: "fetch (run (mount ''1'') [Get ''2'']) = Loading" by (simp add: mount_def)
  have k: "key (run (mount ''1'') [Get ''2'']) = ''2''" by (simp add: mount_def)
  from loading_settles [OF r l, of mockProduct "''Failed to load''"] r l show ?thesis
    by (simp only: k)
qed

end
