(* ===== verification/CartStore.thy ===== *)
theory CartStore
  imports ProductCard "HOL-Library.Multiset"
begin

text \<open>
  The cart behind \<open>useCartContext()\<close>. The context (\<open>contexts/useCartContext\<close>) is not among
  the sources, so the cart is modelled from the specification (sections 3, 4.2 and 5): a
  list of lines \<open>{productId, product snapshot, quantity}\<close> with at most one line per
  product identity, created empty and changed by \<open>addToCart\<close> alone, which increments the
  line of the product when there is one and appends a line of quantity 1 otherwise.

  The card's button carries the closure \<open>() => addToCart(product)\<close>, the value
  \<open>AddToCart product\<close> of theory \<open>ProductCard\<close>; \<open>dispatch\<close> is what a click does with it.
  The event loop is single-threaded, so rapid clicks are a sequence of dispatches: \<open>clicks\<close>
  applies them in order.

  The abstract view of a cart is the multiset of the identities added (\<open>cart_items\<close>);
  \<open>wf_cart\<close> is the invariant of section 3; \<open>quantityOf\<close> reads the quantity of a product.
\<close>

section \<open>The cart and its one mutation\<close>

record CartLine =
  productId :: "number maybe"
  snapshot :: product
  quantity :: nat

type_synonym Cart = "CartLine list"

definition emptyCart :: Cart where
  "emptyCart = []"

fun addToCart :: "product \<Rightarrow> Cart \<Rightarrow> Cart" where
  "addToCart p [] = [\<lparr>productId = pid p, snapshot = p, quantity = 1\<rparr>]"
| "addToCart p (l # ls) =
     (if productId l = pid p then l\<lparr>quantity := quantity l + 1\<rparr> # ls else l # addToCart p ls)"

fun dispatch :: "action \<Rightarrow> Cart \<Rightarrow> Cart" where
  "dispatch (AddToCart p) c = addToCart p c"

definition clicks :: "Cart \<Rightarrow> action list \<Rightarrow> Cart" where
  "clicks = foldl (\<lambda>c a. dispatch a c)"

fun press :: "action element \<Rightarrow> Cart \<Rightarrow> Cart" where
  "press b c = (case handler_prop (props_of b) ''onClick'' of Some a \<Rightarrow> dispatch a c | None \<Rightarrow> c)"

section \<open>Specification: identities with multiplicity\<close>

fun target :: "action \<Rightarrow> number maybe" where
  "target (AddToCart p) = pid p"

definition line_items :: "CartLine \<Rightarrow> number maybe multiset" where
  "line_items l = replicate_mset (quantity l) (productId l)"

definition cart_items :: "Cart \<Rightarrow> number maybe multiset" where
  "cart_items c = sum_list (map line_items c)"

definition quantityOf :: "number maybe \<Rightarrow> Cart \<Rightarrow> nat" where
  "quantityOf i c = sum_list (map quantity (filter (\<lambda>l. productId l = i) c))"

definition wf_line :: "CartLine \<Rightarrow> bool" where
  "wf_line l \<longleftrightarrow> 0 < quantity l \<and> productId l = pid (snapshot l)"

definition wf_cart :: "Cart \<Rightarrow> bool" where
  "wf_cart c \<longleftrightarrow> distinct (map productId c) \<and> list_all wf_line c"

section \<open>Lemmas: one addition\<close>

lemma addToCart_nonempty [simp]: "addToCart p c \<noteq> []"
  by (cases c) simp_all

lemma productIds_addToCart:
  "set (map productId (addToCart p c)) = insert (pid p) (set (map productId c))"
  by (induction c) auto

lemma map_productId_addToCart:
  "map productId (addToCart p c) =
     (if pid p \<in> set (map productId c) then map productId c else map productId c @ [pid p])"
  by (induction c) auto

lemma distinct_addToCart:
  "distinct (map productId c) \<Longrightarrow> distinct (map productId (addToCart p c))"
  by (simp add: map_productId_addToCart)

lemma wf_lines_addToCart: "list_all wf_line c \<Longrightarrow> list_all wf_line (addToCart p c)"
  by (induction c) (auto simp: wf_line_def)

lemma wf_cart_addToCart: "wf_cart c \<Longrightarrow> wf_cart (addToCart p c)"
  by (simp add: wf_cart_def distinct_addToCart wf_lines_addToCart)

lemma wf_cart_empty [simp]: "wf_cart emptyCart"
  by (simp add: wf_cart_def emptyCart_def)

lemma cart_items_Nil [simp]: "cart_items [] = {#}"
  by (simp add: cart_items_def)

lemma cart_items_Cons [simp]: "cart_items (l # ls) = line_items l + cart_items ls"
  by (simp add: cart_items_def)

lemma cart_items_addToCart: "cart_items (addToCart p c) = add_mset (pid p) (cart_items c)"
  by (induction c) (simp_all add: line_items_def)

lemma count_cart_items: "count (cart_items c) i = quantityOf i c"
  by (induction c) (simp_all add: quantityOf_def line_items_def)

section \<open>Lemmas: sequences of clicks\<close>

lemma clicks_Nil [simp]: "clicks c [] = c"
  by (simp add: clicks_def)

lemma clicks_Cons [simp]: "clicks c (a # as) = clicks (dispatch a c) as"
  by (simp add: clicks_def)

lemma clicks_append [simp]: "clicks c (as @ bs) = clicks (clicks c as) bs"
  by (simp add: clicks_def)

lemma cart_items_dispatch: "cart_items (dispatch a c) = add_mset (target a) (cart_items c)"
  by (cases a) (simp add: cart_items_addToCart)

lemma wf_cart_dispatch: "wf_cart c \<Longrightarrow> wf_cart (dispatch a c)"
  by (cases a) (simp add: wf_cart_addToCart)

lemma cart_items_clicks: "cart_items (clicks c as) = cart_items c + mset (map target as)"
  by (induction as arbitrary: c) (simp_all add: cart_items_dispatch)

lemma wf_cart_clicks: "wf_cart c \<Longrightarrow> wf_cart (clicks c as)"
  by (induction as arbitrary: c) (simp_all add: wf_cart_dispatch)

lemma count_mset_map: "count (image_mset f (mset xs)) i = length (filter (\<lambda>a. f a = i) xs)"
  by (induction xs) auto

lemma quantityOf_clicks:
  "quantityOf i (clicks c as) = quantityOf i c + length (filter (\<lambda>a. target a = i) as)"
  by (simp add: count_cart_items [symmetric] cart_items_clicks count_mset_map)

lemma productIds_clicks:
  "set (map productId (clicks c as)) = set (map productId c) \<union> set (map target as)"
proof (induction as arbitrary: c)
  case (Cons a as)
  show ?case by (cases a) (simp add: Cons.IH productIds_addToCart del: set_map)
qed simp

lemma filter_distinct_key:
  "distinct (map f xs) \<Longrightarrow> k \<in> set (map f xs) \<Longrightarrow> \<exists>x. filter (\<lambda>y. f y = k) xs = [x]"
proof (induction xs)
  case (Cons x xs)
  show ?case
  proof (cases "f x = k")
    case True
    from Cons.prems(1) have "\<forall>y\<in>set xs. f y \<noteq> f x" by (auto simp: image_iff)
    with True have "filter (\<lambda>y. f y = k) xs = []" by (simp add: filter_empty_conv)
    with True show ?thesis by simp
  next
    case False
    with Cons show ?thesis by auto
  qed
qed simp

section \<open>Lemmas: pressing a button repeatedly\<close>

lemma press_handler [simp]:
  "handler_prop ps ''onClick'' = Some a \<Longrightarrow> press (Element t ps cs) = dispatch a"
  by (rule ext) simp

lemma wf_cart_funpow: "wf_cart c \<Longrightarrow> wf_cart ((dispatch a ^^ n) c)"
  by (induction n) (simp_all add: wf_cart_dispatch)

lemma cart_items_funpow:
  "cart_items ((dispatch a ^^ n) c) = cart_items c + replicate_mset n (target a)"
  by (induction n) (simp_all add: cart_items_dispatch)

section \<open>What the cart guarantees\<close>

text \<open>
  Claim C16. No lost updates and no duplicate lines: after any sequence of clicks on a
  well-formed cart, every product that was clicked has exactly one line, and the quantity
  of that line is the quantity it had before plus the number of clicks for that product.
\<close>

theorem no_lost_updates:
  assumes "wf_cart c" and "a \<in> set as"
  shows "\<exists>l. filter (\<lambda>l. productId l = target a) (clicks c as) = [l]
           \<and> quantity l = quantityOf (target a) c + length (filter (\<lambda>b. target b = target a) as)"
proof -
  from assms(1) have "distinct (map productId (clicks c as))"
    using wf_cart_clicks [of c as] by (simp add: wf_cart_def)
  moreover from assms(2) have "target a \<in> set (map productId (clicks c as))"
    unfolding productIds_clicks by simp
  ultimately obtain l where l: "filter (\<lambda>l. productId l = target a) (clicks c as) = [l]"
    using filter_distinct_key [of productId "clicks c as" "target a"] by auto
  then have "quantity l = quantityOf (target a) (clicks c as)" by (simp add: quantityOf_def)
  with l show ?thesis by (simp add: quantityOf_clicks)
qed

theorem no_lost_updates_witness:
  "wf_cart emptyCart
   \<and> AddToCart cardProduct \<in> set [AddToCart cardProduct, AddToCart cardProduct, AddToCart cardProduct]
   \<and> (\<exists>l. filter (\<lambda>l. productId l = Val (Finite 1))
              (clicks emptyCart [AddToCart cardProduct, AddToCart cardProduct, AddToCart cardProduct]) = [l]
          \<and> quantity l = 3)"
  using no_lost_updates
    [of emptyCart "AddToCart cardProduct" "[AddToCart cardProduct, AddToCart cardProduct, AddToCart cardProduct]"]
  by (simp add: quantityOf_def emptyCart_def wf_cart_def fixture_defs)

text \<open>
  Claim C17. The uniqueness invariant: a cart that starts well formed (the empty cart is)
  stays well formed under any sequence of clicks: at most one line per product identity,
  every line with a positive quantity and filed under the identity of its snapshot.
\<close>

theorem cart_invariant:
  assumes "wf_cart c"
  shows "wf_cart (clicks c as) \<and> distinct (map productId (clicks c as))"
  using wf_cart_clicks [OF assms, of as] by (simp add: wf_cart_def)

theorem cart_invariant_witness:
  "wf_cart emptyCart
   \<and> wf_cart (clicks emptyCart [AddToCart cardProduct, AddToCart (mockProduct\<lparr>pid := Val (Finite 2)\<rparr>),
         AddToCart mockProduct])
   \<and> distinct (map productId (clicks emptyCart
         [AddToCart cardProduct, AddToCart (mockProduct\<lparr>pid := Val (Finite 2)\<rparr>), AddToCart mockProduct]))"
  using cart_invariant
    [of emptyCart "[AddToCart cardProduct, AddToCart (mockProduct\<lparr>pid := Val (Finite 2)\<rparr>), AddToCart mockProduct]"]
  by simp

text \<open>
  Claim C18. The cart implements a multiset of product identities: the empty cart is the
  empty multiset, and a sequence of clicks adds the multiset of the identities of its
  products, whatever the cart held before and whatever the order of the clicks.
\<close>

theorem cart_refines_multiset:
  "cart_items emptyCart = {#}
   \<and> cart_items (clicks c as) = cart_items c + mset (map target as)"
  by (simp add: emptyCart_def cart_items_clicks)

end
