(* ===== verification/Spec2Isabelle.thy ===== *)
theory Spec2Isabelle
  imports ProductMeta ProductImage ProductStore CartStore
begin

text \<open>
  \<^bold>\<open>Verification of the product catalogue views\<close> (repository \<open>copilot-working-group\<close>).

  \<^bold>\<open>The program.\<close> A React storefront. The sources under \<open>src/components\<close> are three
  view components and five test files:
  \<^item> \<open>ProductCard/index.tsx\<close>: the catalogue card. It takes a product, computes a
    low-stock flag, a link parameter, a row of star glyphs, a bracketed rating, a price
    and a stock text, and renders a button whose click calls \<open>addToCart(product)\<close> of the
    cart context.
  \<^item> \<open>ProductMeta/index.tsx\<close>: the metadata panel of the detail page. It reads the
    accessor \<open>useProduct()\<close> and shows brand, category, stock and rating.
  \<^item> \<open>ProductImage/index.tsx\<close>: the image panel. It reads the same accessor and renders
    one \<open>img\<close>.
  \<^item> the tests of these three components and of \<open>ProductInfo\<close> and \<open>ProductDetail\<close>, whose
    implementations are not among the sources. The tests fix the shape of the product
    record and of the accessor object.

  The two stores the views consume, \<open>hooks/useProduct\<close> and \<open>contexts/useCartContext\<close>, are
  not among the sources either; the specification describes their contract, and they are
  modelled from it (theories \<open>ProductStore\<close> and \<open>CartStore\<close>). What is proved of them is
  proved of that model and of its connection with the views, not of code.

  \<^bold>\<open>The theories.\<close>
  \<^item> \<open>Prelude\<close>: absent values (\<open>'a maybe\<close>), exceptions as values (\<open>js_error\<close>,
    \<open>'a result\<close>, \<open>bind_result\<close>), the operators of the source (\<open>optional_chain\<close> for \<open>?.\<close>,
    \<open>member_call\<close> for a call on a possibly absent receiver, \<open>string_or\<close> for \<open>||\<close>,
    \<open>first_elem\<close> for \<open>?.[0]\<close>), repeated strings, and decimal digits (\<open>digits10\<close>,
    \<open>read_digits\<close>, \<open>digit_count\<close>) with their round trip and bounds.
  \<^item> \<open>JSNumber\<close>: the ECMAScript Number operations the views call. A finite Number is
    the exact rational value of the double. \<open>round_to_double\<close> gives the Number of a
    literal; \<open>number_less\<close>, \<open>Math_round\<close>, \<open>String_repeat\<close>, \<open>Number_toFixed\<close> and
    \<open>Number_toString\<close> follow the algorithms of the standard. The lemmas give the layout
    and the value of \<open>toFixed\<close> output (\<open>fixed_string_layout\<close>: integer digits, a point, \<open>f\<close>
    fraction digits, the value \<open>a\<close> scaled by \<open>10\<^sup>f\<close> and rounded half up, error at most half a
    unit of the last digit), the exceptions of \<open>repeat\<close> and \<open>toFixed\<close>, that integers below
    \<open>2\<^sup>5\<^sup>3\<close> are doubles (\<open>round_to_double_of_int\<close>), and that \<open>toString\<close> prints an integer
    of magnitude below \<open>10\<^sup>1\<^sup>5\<close> as its decimal numeral (\<open>Number_toString_of_int\<close>).
  \<^item> \<open>Markup\<close>: the element tree a view returns (\<open>element\<close>, \<open>prop_value\<close>), the children
    computed from expressions (\<open>text_child\<close>, \<open>number_child\<close>, \<open>String_of\<close>) and the
    observations used to state what a tree shows (\<open>subtrees\<close>, \<open>elements_where\<close>,
    \<open>element_text\<close>, \<open>texts\<close>, \<open>string_prop\<close>, \<open>params_prop\<close>, \<open>handler_prop\<close>).
  \<^item> \<open>Product\<close>: the record \<open>product\<close> (the fields of the tests' fixtures, each possibly
    absent), the data-model invariant \<open>wf_product\<close>, the accessor object \<open>accessor\<close> with
    the four shapes the tests mock (\<open>loaded\<close>, \<open>loading\<close>, \<open>failed\<close>, \<open>idle\<close>) and the
    fixtures themselves, with the Number value of each literal proved once.
  \<^item> \<open>ProductCard\<close>: one definition per expression of the component (\<open>isLowStock\<close>,
    \<open>productIdParam\<close>, \<open>stars\<close>, \<open>ratingCount\<close>, \<open>priceText\<close>, \<open>stockText\<close>, \<open>stockClass\<close>),
    the JSX as \<open>cardTree\<close>, and \<open>ProductCard\<close>, which evaluates the expressions in source
    order. Claims: the stock text and its threshold, the price and rating formats, the
    star count, the exact set of inputs on which the card raises and which exception,
    rendering of well-formed products, the handler of the button, the route parameter of
    the links, and the expectations of the component's test file.
  \<^item> \<open>ProductMeta\<close>: the four cells (\<open>brandText\<close>, \<open>categoryText\<close>, \<open>stockValue\<close>,
    \<open>ratingText\<close>), \<open>metaTree\<close> and \<open>ProductMeta\<close>. Claims: the panel never raises, the
    brand fallback on every input, the rows and their independence, the rating format,
    the stock cell, and the expectations of the component's test file.
  \<^item> \<open>ProductImage\<close>: \<open>imageSrc\<close>, \<open>imageAlt\<close> and \<open>ProductImage\<close>. Claims: the source on
    every input, and the whole panel (one \<open>img\<close>, its source and alternative text).
  \<^item> \<open>ProductStore\<close> (from the specification): the fetch state machine (\<open>store\<close>,
    \<open>event\<close>, \<open>step\<close>, \<open>enabled\<close>, \<open>run\<close>, \<open>reachable\<close>) and \<open>useProduct\<close>, its projection
    onto the accessor object. Claims: stale responses discarded, exclusivity of the
    accessor flags, the transitions of the fetch state, and that a loading store can
    settle.
  \<^item> \<open>CartStore\<close> (from the specification): the cart as a list of lines, \<open>addToCart\<close>,
    \<open>dispatch\<close> of the card's click value, \<open>press\<close> of a button of the markup, sequences
    of \<open>clicks\<close>. Claims: one line per product and no lost updates under any sequence of
    clicks, the invariant, and refinement of the multiset of identities.
  \<^item> this theory: the property that spans card and cart. Pressing the button of a
    rendered card \<open>n\<close> times adds exactly \<open>n\<close> units of the card's product.

  \<^bold>\<open>Correspondence with the code.\<close> A component is a function from its inputs (the
  product prop, or the accessor object the hook returns) to \<open>js_error + element\<close>: \<open>Inl\<close> is
  the exception the render throws, \<open>Inr\<close> the tree it returns. Hooks are inputs: what
  \<open>useProduct()\<close> returns is the argument of \<open>ProductMeta\<close> and \<open>ProductImage\<close>; what
  \<open>useCartContext()\<close> returns appears as the handler value \<open>AddToCart product\<close>, and the
  hook calls themselves are assumed not to raise. The product prop of the card is an
  object (the component is never rendered without one); its fields may be absent. Class
  names are the keys of the CSS module. Text is a byte string in UTF-8 (the star glyph is
  three bytes where JavaScript has one UTF-16 code unit; no claim measures a length in
  code units). A product field is a \<open>maybe\<close> because the tests render fixtures with fields
  set to \<open>undefined\<close> and partial objects; \<open>null\<close> occurs in the accessor (\<open>error: null\<close>),
  whose \<open>error\<close> field is modelled by the message of the \<open>Error\<close> object.

  \<^bold>\<open>Bounds.\<close>
  \<^item> A finite Number carries any rational. The Numbers of the fixtures are built by
    \<open>round_to_double\<close> and are doubles; the claims quantify over all rationals and so
    cover every double.
  \<^item> \<open>Number_toFixed\<close> has the guards of the standard: a digit count outside \<open>0..100\<close>
    raises \<open>RangeError\<close>, a magnitude of \<open>10\<^sup>2\<^sup>1\<close> or more is printed by \<open>toString\<close>. The
    format claims assume a finite, non-negative value below \<open>10\<^sup>2\<^sup>1\<close>.
  \<^item> \<open>shortest_digits\<close> searches digit strings of length 1 to 17 with explicit fuel: 17
    significant digits identify every double. The fuel-exhausted branch returns the
    18-digit truncation; no claim relies on it. The claims about \<open>toString\<close> are about
    integers of magnitude below \<open>10\<^sup>1\<^sup>5\<close>: there every candidate of the search is an integer
    below \<open>2\<^sup>5\<^sup>3\<close>, hence a double, and the search is proved to end within the fuel
    (\<open>shortest_from_of_int\<close>).
  \<^item> \<open>String_repeat\<close> follows the steps of the standard and has no maximal string
    length. Engines raise \<open>RangeError\<close> when the result would exceed theirs, that is for
    star counts of the order of \<open>10\<^sup>8\<close> and more; the data model bounds the rating by 5.
  \<^item> The value \<open>-0\<close> is not represented: no operation used by the views distinguishes
    it from \<open>+0\<close>.

  \<^bold>\<open>Not modelled.\<close> The ui kit (\<open>Card\<close>, \<open>Button\<close>), the router's \<open>Link\<close> and the style sheets
  are external: they appear as tags, props and class keys of the tree. React's rendering
  of a tree to the DOM and the test harness (vitest, testing-library) are not modelled;
  the claims speak about the returned tree, and the expectations of the tests are stated
  over its text nodes. \<open>ProductInfo\<close>, \<open>ProductDetail\<close>, \<open>ProductNavigation\<close> and
  \<open>ProductActions\<close> have no implementation among the sources. The network transport of
  the store is an event (\<open>Resolved\<close>, \<open>Rejected\<close>) and not a computation.
\<close>

section \<open>Card and cart\<close>

text \<open>
  Claim C15. Clicks on the button of a rendered card add up: the rendered card has exactly
  one button, and pressing it \<open>n\<close> times on a well-formed cart keeps the cart well formed,
  adds \<open>n\<close> copies of the identity of the card's product to the items of the cart, and
  raises the quantity of that product by \<open>n\<close>: no click is lost and no line is duplicated.
\<close>

theorem card_clicks_add_up:
  assumes "ProductCard p = Inr e" and "wf_cart c"
  shows "\<exists>b. elements_where (has_tag ''Button'') e = [b]
           \<and> wf_cart ((press b ^^ n) c)
           \<and> cart_items ((press b ^^ n) c) = cart_items c + replicate_mset n (pid p)
           \<and> quantityOf (pid p) ((press b ^^ n) c) = quantityOf (pid p) c + n"
proof -
  from assms(1) obtain s r m where "e = cardTree p s r m"
    unfolding ProductCard_Inr_iff by blast
  with assms(2) show ?thesis
    by (simp add: cardTree_buttons wf_cart_funpow cart_items_funpow count_cart_items [symmetric])
qed

theorem card_clicks_add_up_witness:
  "\<exists>e. ProductCard cardProduct = Inr e \<and> wf_cart emptyCart
     \<and> (\<exists>b. elements_where (has_tag ''Button'') e = [b]
           \<and> wf_cart ((press b ^^ 3) emptyCart)
           \<and> cart_items ((press b ^^ 3) emptyCart)
               = cart_items emptyCart + replicate_mset 3 (pid cardProduct)
           \<and> quantityOf (pid cardProduct) ((press b ^^ 3) emptyCart)
               = quantityOf (pid cardProduct) emptyCart + 3)"
proof -
  have "is_ok (ProductCard cardProduct)"
    by (rule ProductCard_ok_Finite [of _ "9 / 2" "7036170730324623 / 70368744177664"])
      (simp_all add: fixture_defs)
  then obtain e where e: "ProductCard cardProduct = Inr e" by (auto simp: is_ok_iff)
  have w: "wf_cart emptyCart" by simp
  show ?thesis
    by (rule exI [of _ e]) (intro conjI e w card_clicks_add_up [OF e w])
qed

end
